theory Spec2Isabelle
  imports Main "HOL-Library.Monad_Syntax"
begin

section \<open>Common data\<close>

text \<open>
  Go errors are values.  \<open>Wrapped m e\<close> is \<^verbatim>\<open>fmt.Errorf("m: %w", e)\<close>;
  \<open>MalformedMetadataError e\<close> and \<open>ErrUnsupportedResourceType\<close> are the two
  error values of package gardenruntime that the image fetcher returns by name.
\<close>

datatype error =
    Err string
  | Wrapped string error
  | ErrUnsupportedResourceType
  | MalformedMetadataError error

text \<open>
  A \<^verbatim>\<open>time.Time\<close> is an instant and a \<^verbatim>\<open>time.Duration\<close> a signed
  length, both counted in nanoseconds: \<^verbatim>\<open>t.Add(d)\<close> is \<open>t + d\<close>,
  \<^verbatim>\<open>t.Before(u)\<close> is \<open>t < u\<close> and \<^verbatim>\<open>t.After(u)\<close> is \<open>u < t\<close>.
\<close>

type_synonym time = int
type_synonym duration = int

section \<open>The check coordinator (package engine, checkDelegate.WaitToRun)\<close>

subsection \<open>Data\<close>

record CheckEvery =
  Never :: bool
  Interval :: duration

text \<open>
  The fields of \<^verbatim>\<open>atc.CheckPlan\<close> that the delegate reads.  The method
  \<^verbatim>\<open>IsPeriodic()\<close> is declared with the plan type, outside the files at hand;
  its result is carried as the field \<open>IsPeriodic\<close>.
\<close>

record CheckPlan =
  Name :: string
  Resource :: string
  ResourceType :: string
  Prototype :: string
  Interval :: CheckEvery
  SkipInterval :: bool
  FromVersion :: "(string \<times> string) list option"
  IsPeriodic :: bool

record LastCheck =
  StartTime :: time
  EndTime :: time
  Succeeded :: bool

record Build =
  CreateTime :: time
  StartTime :: time

text \<open>
  A \<^verbatim>\<open>lock.Lock\<close> value: the nil interface, the \<^verbatim>\<open>lock.NoopLock{}\<close> that
  guards nothing, or a lock handed out by the scope's
  \<^verbatim>\<open>AcquireResourceCheckingLock\<close>.
\<close>

datatype Lock = NilLock | NoopLock | ResourceCheckingLock

record checkDelegate =
  build :: Build
  plan :: CheckPlan

text \<open>
  The collaborators of one call of \<^verbatim>\<open>WaitToRun\<close>.  The loop calls each of
  \<^verbatim>\<open>scope.LastCheck\<close>, \<^verbatim>\<open>clock.Now\<close>,
  \<^verbatim>\<open>scope.AcquireResourceCheckingLock\<close> and the \<^verbatim>\<open>select\<close> on
  \<^verbatim>\<open>ctx.Done()\<close> at most once per iteration, so what each answers is given
  per iteration number.  \<open>ctx_Done i = Some e\<close> says that the context is cancelled
  (with \<^verbatim>\<open>ctx.Err() = e\<close>) before the one-second timer of iteration \<open>i\<close> fires.
\<close>

record world =
  limiter_Wait :: "error option"
  scope_LastCheck :: "nat \<Rightarrow> error + LastCheck"
  clock_Now :: "nat \<Rightarrow> time"
  scope_AcquireResourceCheckingLock :: "nat \<Rightarrow> error + Lock \<times> bool"
  ctx_Done :: "nat \<Rightarrow> error option"

text \<open>The calls that change or query shared state, in the order they are made.\<close>

datatype call = LimiterWait | ReadLastCheck | AcquireLock | Sleep

text \<open>The Go result triple \<^verbatim>\<open>(lock.Lock, bool, error)\<close>.\<close>

type_synonym outcome = "Lock \<times> bool \<times> error option"

text \<open>
  A run is the calls made so far and the result, \<open>None\<close> while the loop has not
  returned within the iterations allowed.
\<close>

type_synonym run = "call list \<times> outcome option"

definition after :: "call list \<Rightarrow> run \<Rightarrow> run" where
  "after cs r = (cs @ fst r, snd r)"

subsection \<open>WaitToRun\<close>

text \<open>
  The \<^verbatim>\<open>for\<close> loop of the periodic branch, from iteration \<open>i\<close> on.  It has no
  bound in the source (it spins while another node holds the lock), so the model
  counts the iterations it may still start.
\<close>

fun waitLoop :: "checkDelegate \<Rightarrow> world \<Rightarrow> nat \<Rightarrow> nat \<Rightarrow> run" where
  "waitLoop d w i 0 = ([], None)"
| "waitLoop d w i (Suc fuel) =
     (case scope_LastCheck w i of
        Inl err \<Rightarrow> ([ReadLastCheck], Some (NilLock, False, Some err))
      | Inr lastCheck \<Rightarrow>
          if (if SkipInterval (plan d)
              then FromVersion (plan d) = None
                   \<and> Succeeded lastCheck
                   \<and> CreateTime (build d) < LastCheck.StartTime lastCheck
              else clock_Now w i
                   < EndTime lastCheck + CheckEvery.Interval (Interval (plan d)))
          then ([ReadLastCheck], Some (NilLock, False, None))
          else
            (case scope_AcquireResourceCheckingLock w i of
               Inl err \<Rightarrow>
                 ([ReadLastCheck, AcquireLock],
                  Some (NilLock, False, Some (Wrapped ''acquire lock'' err)))
             | Inr (lock, acquired) \<Rightarrow>
                 if acquired
                 then ([ReadLastCheck, AcquireLock], Some (lock, True, None))
                 else
                   (case ctx_Done w i of
                      Some err \<Rightarrow>
                        ([ReadLastCheck, AcquireLock, Sleep],
                         Some (NilLock, False, Some err))
                    | None \<Rightarrow>
                        after [ReadLastCheck, AcquireLock, Sleep]
                          (waitLoop d w (Suc i) fuel))))"

text \<open>The part of \<^verbatim>\<open>WaitToRun\<close> after the rate limiter.\<close>

definition waitBody :: "checkDelegate \<Rightarrow> world \<Rightarrow> nat \<Rightarrow> run" where
  "waitBody d w fuel =
     (if IsPeriodic (plan d) then waitLoop d w 0 fuel
      else
        (case scope_LastCheck w 0 of
           Inl err \<Rightarrow> ([ReadLastCheck], Some (NilLock, False, Some err))
         | Inr lastCheck \<Rightarrow>
             if Succeeded lastCheck \<and> Build.StartTime (build d) < EndTime lastCheck
             then ([ReadLastCheck], Some (NilLock, False, None))
             else ([ReadLastCheck], Some (NoopLock, True, None))))"

definition WaitToRun :: "checkDelegate \<Rightarrow> world \<Rightarrow> nat \<Rightarrow> run" where
  "WaitToRun d w fuel =
     (if \<not> SkipInterval (plan d) then
        if Never (Interval (plan d)) then ([], Some (NilLock, False, None))
        else if Resource (plan d) \<noteq> [] then
          (case limiter_Wait w of
             Some err \<Rightarrow> ([LimiterWait], Some (NilLock, False, Some (Wrapped ''rate limit'' err)))
           | None \<Rightarrow> after [LimiterWait] (waitBody d w fuel))
        else waitBody d w fuel
      else waitBody d w fuel)"

subsection \<open>Vocabulary for the statements\<close>

text \<open>The interval gate of a periodic check, on the \<open>i\<close>-th reading of the clock.\<close>

definition gateRejects :: "checkDelegate \<Rightarrow> world \<Rightarrow> nat \<Rightarrow> LastCheck \<Rightarrow> bool" where
  "gateRejects d w i lastCheck \<longleftrightarrow>
     clock_Now w i < EndTime lastCheck + CheckEvery.Interval (Interval (plan d))"

text \<open>The reuse test of a manually triggered check.\<close>

definition manualReuses :: "checkDelegate \<Rightarrow> LastCheck \<Rightarrow> bool" where
  "manualReuses d lastCheck \<longleftrightarrow>
     FromVersion (plan d) = None \<and> Succeeded lastCheck
     \<and> CreateTime (build d) < LastCheck.StartTime lastCheck"

text \<open>
  Iteration \<open>i\<close> of the loop goes round: \<^verbatim>\<open>LastCheck\<close> is read, the test of the
  iteration lets the check run, the lock is held elsewhere, and the context outlives
  the one-second wait.
\<close>

definition spins :: "checkDelegate \<Rightarrow> world \<Rightarrow> nat \<Rightarrow> bool" where
  "spins d w i =
     (case scope_LastCheck w i of
        Inl err \<Rightarrow> False
      | Inr lastCheck \<Rightarrow>
          \<not> (if SkipInterval (plan d) then manualReuses d lastCheck
              else gateRejects d w i lastCheck)
          \<and> (case scope_AcquireResourceCheckingLock w i of
                Inl err \<Rightarrow> False
              | Inr (lock, acquired) \<Rightarrow> \<not> acquired \<and> ctx_Done w i = None))"

text \<open>The calls of the rate-limiting prologue.\<close>

definition limiterCalls :: "checkDelegate \<Rightarrow> call list" where
  "limiterCalls d =
     (if \<not> SkipInterval (plan d) \<and> \<not> Never (Interval (plan d)) \<and> Resource (plan d) \<noteq> []
      then [LimiterWait] else [])"

subsection \<open>Example checks\<close>

text \<open>A periodic check of resource \<open>r\<close>, with an interval of 60.\<close>

definition lidarCheck :: checkDelegate where
  "lidarCheck =
     \<lparr>build = \<lparr>CreateTime = 0, StartTime = 0\<rparr>,
      plan = \<lparr>Name = ''r'', Resource = ''r'', ResourceType = [], Prototype = [],
              Interval = \<lparr>Never = False, Interval = 60\<rparr>,
              SkipInterval = False, FromVersion = None, IsPeriodic = True\<rparr>\<rparr>"

text \<open>The same check triggered by hand, without and with a version to start from.\<close>

definition manualCheck :: checkDelegate where
  "manualCheck = lidarCheck\<lparr>plan := (plan lidarCheck)\<lparr>SkipInterval := True\<rparr>\<rparr>"

definition manualCheckFrom :: checkDelegate where
  "manualCheckFrom =
     lidarCheck\<lparr>plan := (plan lidarCheck)\<lparr>SkipInterval := True,
                                           FromVersion := Some [(''ref'', ''abc'')]\<rparr>\<rparr>"

text \<open>
  A check embedded in a build step, created at 40 for a build started at 50; and the
  same check with the interval \<open>Never\<close>.
\<close>

definition embeddedCheck :: checkDelegate where
  "embeddedCheck =
     \<lparr>build = \<lparr>CreateTime = 40, StartTime = 50\<rparr>,
      plan = \<lparr>Name = ''image'', Resource = [], ResourceType = [], Prototype = [],
              Interval = \<lparr>Never = False, Interval = 60\<rparr>,
              SkipInterval = False, FromVersion = None, IsPeriodic = False\<rparr>\<rparr>"

definition embeddedNeverCheck :: checkDelegate where
  "embeddedNeverCheck =
     embeddedCheck\<lparr>plan := (plan embeddedCheck)\<lparr>Interval := \<lparr>Never = True, Interval = 0\<rparr>\<rparr>\<rparr>"

text \<open>
  At time 100 the last check known at the first reading ended at 10.  Another node
  checks meanwhile: from the second reading on, the last check ended at 99.  The lock
  is free.
\<close>

definition racedWorld :: world where
  "racedWorld =
     \<lparr>limiter_Wait = None,
      scope_LastCheck = (\<lambda>i. Inr (if i = 0 then \<lparr>LastCheck.StartTime = 0, EndTime = 10, Succeeded = True\<rparr>
                                   else \<lparr>LastCheck.StartTime = 95, EndTime = 99, Succeeded = True\<rparr>)),
      clock_Now = (\<lambda>i. 100),
      scope_AcquireResourceCheckingLock = (\<lambda>i. Inr (ResourceCheckingLock, True)),
      ctx_Done = (\<lambda>i. None)\<rparr>"

text \<open>The lock is held elsewhere during the first iteration and free afterwards.\<close>

definition contendedWorld :: world where
  "contendedWorld =
     \<lparr>limiter_Wait = None,
      scope_LastCheck = (\<lambda>i. Inr \<lparr>LastCheck.StartTime = 0, EndTime = 10, Succeeded = True\<rparr>),
      clock_Now = (\<lambda>i. 100 + int i),
      scope_AcquireResourceCheckingLock =
        (\<lambda>i. if i = 0 then Inr (NilLock, False) else Inr (ResourceCheckingLock, True)),
      ctx_Done = (\<lambda>i. None)\<rparr>"

text \<open>The last check failed.\<close>

definition failedWorld :: world where
  "failedWorld =
     \<lparr>limiter_Wait = None,
      scope_LastCheck = (\<lambda>i. Inr \<lparr>LastCheck.StartTime = 0, EndTime = 10, Succeeded = False\<rparr>),
      clock_Now = (\<lambda>i. 100),
      scope_AcquireResourceCheckingLock = (\<lambda>i. Inr (ResourceCheckingLock, True)),
      ctx_Done = (\<lambda>i. None)\<rparr>"

text \<open>At time 100 the last check ended at 99, having succeeded; the lock is free.\<close>

definition freshWorld :: world where
  "freshWorld =
     \<lparr>limiter_Wait = None,
      scope_LastCheck = (\<lambda>i. Inr \<lparr>LastCheck.StartTime = 95, EndTime = 99, Succeeded = True\<rparr>),
      clock_Now = (\<lambda>i. 100),
      scope_AcquireResourceCheckingLock = (\<lambda>i. Inr (ResourceCheckingLock, True)),
      ctx_Done = (\<lambda>i. None)\<rparr>"

section \<open>The image fetcher (package gardenruntime)\<close>

subsection \<open>Data\<close>

record ImageMetadata =
  Env :: "string list"
  User :: string

text \<open>
  \<^verbatim>\<open>atc.Version\<close> is a map from strings to strings; the nil map of a zero
  \<^verbatim>\<open>FetchedImage{}\<close> is the empty map.
\<close>

record FetchedImage =
  Metadata :: ImageMetadata
  Version :: "string \<rightharpoonup> string"
  URL :: string
  Privileged :: bool

text \<open>A volume of a worker, by what the fetcher asks of it.\<close>

record Volume =
  Handle :: string
  Path :: string
  WorkerName :: string

text \<open>
  A \<^verbatim>\<open>runtime.Artifact\<close>: a volume is one; any other is known by its name.
\<close>

datatype Artifact = VolumeArtifact Volume | NamedArtifact string

text \<open>\<^verbatim>\<open>runtime.ImageSpec\<close>; a nil \<open>ImageArtifact\<close> is \<open>None\<close>.\<close>

record ImageSpec =
  ImageArtifact :: "Artifact option"
  ResourceType :: string
  ImageURL :: string
  Privileged :: bool

record WorkerResourceType =
  Type :: string
  Image :: string
  Version :: string
  Privileged :: bool

text \<open>
  \<^verbatim>\<open>baggageclaim.VolumeSpec{Strategy: ImportStrategy{Path: p}, Privileged: b}\<close>.
\<close>

record VolumeSpec =
  ImportPath :: string
  Privileged :: bool

text \<open>A \<^verbatim>\<open>db.CreatingContainer\<close>, by its handle.\<close>

type_synonym CreatingContainer = string

text \<open>
  The worker: its name, the resource types it reports, and what its volume
  operations and its streamer answer.  These methods are declared in other files of
  the package; each is called at most once on every path of the fetcher, so one
  answer per argument list is enough.  \<open>findVolumeForArtifact\<close> answers the Go triple
  \<^verbatim>\<open>(volume, ok, err)\<close>: an error, or the volume if one was found.
  \<open>StreamFile\<close> answers the bytes of the file.
\<close>

record Worker =
  Name :: string
  ResourceTypes :: "WorkerResourceType list"
  findVolumeForArtifact :: "int \<Rightarrow> Artifact \<Rightarrow> error + Volume option"
  findOrCreateCOWVolumeForContainer ::
    "bool \<Rightarrow> CreatingContainer \<Rightarrow> Volume \<Rightarrow> int \<Rightarrow> string \<Rightarrow> error + Volume"
  findOrCreateVolumeForStreaming ::
    "bool \<Rightarrow> CreatingContainer \<Rightarrow> int \<Rightarrow> string \<Rightarrow> error + Volume"
  findOrCreateVolumeForBaseResourceType ::
    "VolumeSpec \<Rightarrow> int \<Rightarrow> string \<Rightarrow> error + Volume"
  streamer_StreamFile :: "Artifact \<Rightarrow> string \<Rightarrow> error + string"
  streamer_Stream :: "Artifact \<Rightarrow> Volume \<Rightarrow> error option"

text \<open>
  The functions of the Go standard library that the fetcher calls and whose results
  it passes on: the decoding of \<^verbatim>\<open>metadata.json\<close>
  (\<^verbatim>\<open>json.NewDecoder(r).Decode\<close>), \<^verbatim>\<open>path.Join\<close> of two elements, and
  the escaping of a path by \<^verbatim>\<open>net/url\<close> (\<^verbatim>\<open>EscapedPath\<close>).
\<close>

record golib =
  json_Decode :: "string \<Rightarrow> error + ImageMetadata"
  path_Join :: "string \<Rightarrow> string \<Rightarrow> string"
  url_EscapedPath :: "string \<Rightarrow> string"

definition RawRootFSScheme :: string where
  "RawRootFSScheme = ''raw''"

definition ImageMetadataFile :: string where
  "ImageMetadataFile = ''metadata.json''"

text \<open>
  \<^verbatim>\<open>url.URL{Scheme: s, Path: p}.String()\<close>, every other field of the URL being
  zero: the scheme and a colon when there is a scheme, two slashes when there is a
  scheme and a path, then the escaped path.
\<close>

definition URL_String :: "golib \<Rightarrow> string \<Rightarrow> string \<Rightarrow> string" where
  "URL_String lib scheme path =
     (if scheme \<noteq> [] then scheme @ '':'' else [])
     @ (if scheme \<noteq> [] \<and> path \<noteq> [] then ''//'' else [])
     @ url_EscapedPath lib path"

text \<open>The zero values \<^verbatim>\<open>ImageMetadata{}\<close> and \<^verbatim>\<open>FetchedImage{}\<close>.\<close>

definition ImageMetadata_zero :: ImageMetadata where
  "ImageMetadata_zero = \<lparr>Env = [], User = []\<rparr>"

definition FetchedImage_zero :: FetchedImage where
  "FetchedImage_zero =
     \<lparr>Metadata = ImageMetadata_zero, Version = Map.empty, URL = [],
      FetchedImage.Privileged = False\<rparr>"

subsection \<open>The fetcher\<close>

definition loadMetadata :: "golib \<Rightarrow> string \<Rightarrow> error + ImageMetadata" where
  "loadMetadata lib tarReader =
     (case json_Decode lib tarReader of
        Inl err \<Rightarrow> Inl (MalformedMetadataError err)
      | Inr imageMetadata \<Rightarrow> Inr imageMetadata)"

definition imageProvidedByPreviousStepOnSameWorker ::
  "golib \<Rightarrow> Worker \<Rightarrow> bool \<Rightarrow> int \<Rightarrow> CreatingContainer \<Rightarrow> Volume \<Rightarrow> error + FetchedImage" where
  "imageProvidedByPreviousStepOnSameWorker lib worker privileged teamID container artifactVolume =
     (case findOrCreateCOWVolumeForContainer worker privileged container artifactVolume teamID ''/'' of
        Inl err \<Rightarrow> Inl (Wrapped ''create COW volume'' err)
      | Inr imageVolume \<Rightarrow>
          (case streamer_StreamFile worker (VolumeArtifact artifactVolume) ImageMetadataFile of
             Inl err \<Rightarrow> Inl (Wrapped ''stream metadata'' err)
           | Inr imageMetadataReader \<Rightarrow>
               (case loadMetadata lib imageMetadataReader of
                  Inl err \<Rightarrow> Inl (Wrapped ''load metadata'' err)
                | Inr metadata \<Rightarrow>
                    Inr \<lparr>Metadata = metadata, Version = Map.empty,
                         URL = URL_String lib RawRootFSScheme
                                 (path_Join lib (Path imageVolume) ''rootfs''),
                         FetchedImage.Privileged = privileged\<rparr>)))"

definition imageProvidedByPreviousStepOnDifferentWorker ::
  "golib \<Rightarrow> Worker \<Rightarrow> bool \<Rightarrow> int \<Rightarrow> CreatingContainer \<Rightarrow> Artifact \<Rightarrow> error + FetchedImage" where
  "imageProvidedByPreviousStepOnDifferentWorker lib worker privileged teamID container artifact =
     (case findOrCreateVolumeForStreaming worker privileged container teamID ''/'' of
        Inl err \<Rightarrow> Inl err
      | Inr streamedVolume \<Rightarrow>
          (case streamer_Stream worker artifact streamedVolume of
             Some err \<Rightarrow> Inl err
           | None \<Rightarrow>
               (case findOrCreateCOWVolumeForContainer worker privileged container streamedVolume
                       teamID ''/'' of
                  Inl err \<Rightarrow> Inl err
                | Inr imageVolume \<Rightarrow>
                    (case streamer_StreamFile worker artifact ImageMetadataFile of
                       Inl err \<Rightarrow> Inl err
                     | Inr imageMetadataReader \<Rightarrow>
                         (case loadMetadata lib imageMetadataReader of
                            Inl err \<Rightarrow> Inl err
                          | Inr metadata \<Rightarrow>
                              Inr \<lparr>Metadata = metadata, Version = Map.empty,
                                   URL = URL_String lib RawRootFSScheme
                                           (path_Join lib (Path imageVolume) ''rootfs''),
                                   FetchedImage.Privileged = privileged\<rparr>)))))"

definition imageFromBaseResourceType ::
  "golib \<Rightarrow> Worker \<Rightarrow> WorkerResourceType \<Rightarrow> string \<Rightarrow> int \<Rightarrow> CreatingContainer
    \<Rightarrow> error + FetchedImage" where
  "imageFromBaseResourceType lib worker resourceType resourceTypeName teamID container =
     (case findOrCreateVolumeForBaseResourceType worker
             \<lparr>ImportPath = Image resourceType,
              VolumeSpec.Privileged = WorkerResourceType.Privileged resourceType\<rparr>
             teamID resourceTypeName of
        Inl err \<Rightarrow> Inl err
      | Inr importVolume \<Rightarrow>
          (case findOrCreateCOWVolumeForContainer worker
                  (WorkerResourceType.Privileged resourceType) container importVolume teamID ''/'' of
             Inl err \<Rightarrow> Inl err
           | Inr cowVolume \<Rightarrow>
               Inr \<lparr>Metadata = ImageMetadata_zero,
                    Version = [resourceTypeName \<mapsto> WorkerResourceType.Version resourceType],
                    URL = URL_String lib RawRootFSScheme (Path cowVolume),
                    FetchedImage.Privileged = WorkerResourceType.Privileged resourceType\<rparr>))"

text \<open>
  The \<^verbatim>\<open>for\<close> loop over the worker's resource types returns at the first one of
  the wanted type: \<open>find\<close>.
\<close>

definition fetchImageForContainer ::
  "golib \<Rightarrow> Worker \<Rightarrow> ImageSpec \<Rightarrow> int \<Rightarrow> CreatingContainer \<Rightarrow> error + FetchedImage" where
  "fetchImageForContainer lib worker imageSpec teamID container =
     (case ImageArtifact imageSpec of
        Some artifact \<Rightarrow>
          (case findVolumeForArtifact worker teamID artifact of
             Inl err \<Rightarrow> Inl err
           | Inr found \<Rightarrow>
               (case found of
                  Some volume \<Rightarrow>
                    if WorkerName volume = Name worker
                    then imageProvidedByPreviousStepOnSameWorker lib worker
                           (ImageSpec.Privileged imageSpec) teamID container volume
                    else imageProvidedByPreviousStepOnDifferentWorker lib worker
                           (ImageSpec.Privileged imageSpec) teamID container artifact
                | None \<Rightarrow>
                    imageProvidedByPreviousStepOnDifferentWorker lib worker
                      (ImageSpec.Privileged imageSpec) teamID container artifact))
      | None \<Rightarrow>
          if ResourceType imageSpec \<noteq> [] then
            (case find (\<lambda>t. Type t = ResourceType imageSpec) (ResourceTypes worker) of
               Some t \<Rightarrow>
                 imageFromBaseResourceType lib worker t (ResourceType imageSpec) teamID container
             | None \<Rightarrow> Inl ErrUnsupportedResourceType)
          else Inr (FetchedImage_zero\<lparr>URL := ImageURL imageSpec\<rparr>))"

subsection \<open>An example worker\<close>

text \<open>
  A library whose paths need no escaping and whose \<^verbatim>\<open>path.Join\<close> puts a slash
  between two clean elements; \<^verbatim>\<open>metadata.json\<close> never decodes.
\<close>

definition plainLib :: golib where
  "plainLib =
     \<lparr>json_Decode = (\<lambda>s. Inl (Err ''unexpected end of JSON input'')),
      path_Join = (\<lambda>a b. a @ ''/'' @ b),
      url_EscapedPath = (\<lambda>p. p)\<rparr>"

text \<open>
  Worker \<open>w1\<close> supports the resource type \<open>git\<close>, privileged; every volume it is
  asked for lives under \<^verbatim>\<open>/vol\<close>.
\<close>

definition w1 :: Worker where
  "w1 =
     \<lparr>Name = ''w1'',
      ResourceTypes =
        [\<lparr>Type = ''git'', Image = ''/images/git'', Version = ''v1'',
          WorkerResourceType.Privileged = True\<rparr>],
      findVolumeForArtifact = (\<lambda>teamID artifact. Inr None),
      findOrCreateCOWVolumeForContainer =
        (\<lambda>privileged container parent teamID mountPath.
           Inr \<lparr>Handle = ''cow'', Path = ''/vol/cow'', WorkerName = ''w1''\<rparr>),
      findOrCreateVolumeForStreaming =
        (\<lambda>privileged container teamID mountPath.
           Inr \<lparr>Handle = ''streamed'', Path = ''/vol/streamed'', WorkerName = ''w1''\<rparr>),
      findOrCreateVolumeForBaseResourceType =
        (\<lambda>spec teamID name.
           Inr \<lparr>Handle = ''import'', Path = ''/vol/import'', WorkerName = ''w1''\<rparr>),
      streamer_StreamFile = (\<lambda>artifact file. Inr []),
      streamer_Stream = (\<lambda>artifact volume. None)\<rparr>"

section \<open>The get step (package exec)\<close>

subsection \<open>Data\<close>

type_synonym Source = "(string \<times> string) list"
type_synonym Params = "(string \<times> string) list"
type_synonym atc_Version = "string \<rightharpoonup> string"

text \<open>A versioned resource type of the pipeline, by name, type and source.\<close>

type_synonym VersionedResourceTypes = "(string \<times> string \<times> Source) list"

text \<open>\<^verbatim>\<open>atc.GetPlan\<close>; a nil \<open>Version\<close> is \<open>None\<close>.\<close>

record GetPlan =
  Name :: string
  Type :: string
  Resource :: string
  Source :: Source
  Params :: Params
  Version :: "atc_Version option"
  Tags :: "string list"
  VersionedResourceTypes :: VersionedResourceTypes

text \<open>\<^verbatim>\<open>exec.StepMetadata\<close>.\<close>

record StepMetadata =
  BuildID :: int
  BuildName :: string
  TeamID :: int
  TeamName :: string
  JobID :: int
  JobName :: string
  PipelineID :: int
  PipelineName :: string
  ResourceConfigScopeID :: int
  ResourceConfigID :: int
  BaseResourceTypeID :: int
  ExternalURL :: string

text \<open>\<^verbatim>\<open>db.ContainerMetadata\<close>, by the fields the builder sets.\<close>

record ContainerMetadata =
  Type :: string
  StepName :: string
  Attempt :: string
  PipelineID :: int
  JobID :: int
  BuildID :: int
  PipelineName :: string
  JobName :: string
  BuildName :: string

record VersionResult =
  Version :: atc_Version
  Metadata :: "(string \<times> string) list"

text \<open>What \<^verbatim>\<open>RunGetStep\<close> returns when it returns no error.\<close>

record GetResult =
  ExitStatus :: int
  VersionResult :: VersionResult
  GetArtifact :: Artifact

text \<open>
  What the step hands to \<^verbatim>\<open>workerClient.RunGetStep\<close>: the container owner
  (build, plan, team), the container and worker specs, the container metadata, the
  process to run, the resource cache and the resource to get.
\<close>

record ContainerSpec =
  ImageResourceType :: string
  TeamID :: int
  Env :: "string list"

record WorkerSpec =
  ResourceType :: string
  Tags :: "string list"
  TeamID :: int
  ResourceTypes :: VersionedResourceTypes

record ProcessSpec =
  Path :: string
  Args :: "string list"

record GetRequest =
  owner :: "int \<times> string \<times> int"
  containerSpec :: ContainerSpec
  workerSpec :: WorkerSpec
  containerMetadata :: ContainerMetadata
  imageResourceTypes :: VersionedResourceTypes
  processSpec :: ProcessSpec
  resourceCache :: int
  resourceToGet :: "Source \<times> Params \<times> atc_Version"

text \<open>
  The fields of \<^verbatim>\<open>GetStep\<close> that are data; its factories, strategy and worker
  client are the collaborators below.
\<close>

record GetStep =
  planID :: string
  plan :: GetPlan
  metadata :: StepMetadata
  containerMetadata :: ContainerMetadata
  succeeded :: bool

text \<open>
  The collaborators of one run, each asked at most once: the evaluation of the
  plan's source, params and resource types against the run state's variables, the
  version of the plan, the environment of the step metadata, the resource-cache
  factory (answering the cache's id), \<^verbatim>\<open>resource.ResourcesDir\<close>, and the worker
  client.
\<close>

record getWorld =
  creds_Source :: "Source \<Rightarrow> error + Source"
  creds_Params :: "Params \<Rightarrow> error + Params"
  creds_VersionedResourceTypes :: "VersionedResourceTypes \<Rightarrow> error + VersionedResourceTypes"
  versionSource_Version :: "GetPlan \<Rightarrow> error + atc_Version"
  metadata_Env :: "StepMetadata \<Rightarrow> string list"
  FindOrCreateResourceCache ::
    "int \<Rightarrow> string \<Rightarrow> atc_Version \<Rightarrow> Source \<Rightarrow> Params \<Rightarrow> VersionedResourceTypes
      \<Rightarrow> error + int"
  ResourcesDir :: "string \<Rightarrow> string"
  RunGetStep :: "GetRequest \<Rightarrow> error + GetResult"

text \<open>
  The calls of the step on its delegate and on the artifact repository of the run
  state, in order.
\<close>

datatype getCall =
    Initializing
  | RegisterArtifact string Artifact
  | UpdateVersion GetPlan VersionResult
  | Finished int VersionResult

subsection \<open>The step\<close>

definition NewGetStep ::
  "string \<Rightarrow> GetPlan \<Rightarrow> StepMetadata \<Rightarrow> ContainerMetadata \<Rightarrow> GetStep" where
  "NewGetStep planID' plan' metadata' containerMetadata' =
     \<lparr>planID = planID', plan = plan', metadata = metadata',
      GetStep.containerMetadata = containerMetadata', succeeded = False\<rparr>"

text \<open>
  The first part of \<^verbatim>\<open>GetStep.run\<close>, up to the call of the worker client:
  the evaluations, the resource cache, and the request put together from them.  The
  first error ends the run.
\<close>

definition getRequest :: "getWorld \<Rightarrow> GetStep \<Rightarrow> error + GetRequest" where
  "getRequest w step =
     (case creds_Source w (GetPlan.Source (plan step)) of
        Inl err \<Rightarrow> Inl err
      | Inr source \<Rightarrow>
     (case creds_Params w (GetPlan.Params (plan step)) of
        Inl err \<Rightarrow> Inl err
      | Inr params \<Rightarrow>
     (case creds_VersionedResourceTypes w (VersionedResourceTypes (plan step)) of
        Inl err \<Rightarrow> Inl err
      | Inr resourceTypes \<Rightarrow>
     (case versionSource_Version w (plan step) of
        Inl err \<Rightarrow> Inl err
      | Inr version \<Rightarrow>
     (case FindOrCreateResourceCache w (StepMetadata.BuildID (metadata step))
             (GetPlan.Type (plan step)) version source params resourceTypes of
        Inl err \<Rightarrow> Inl err
      | Inr cache \<Rightarrow>
          Inr \<lparr>owner = (StepMetadata.BuildID (metadata step), planID step,
                         StepMetadata.TeamID (metadata step)),
               containerSpec =
                 \<lparr>ImageResourceType = GetPlan.Type (plan step),
                  ContainerSpec.TeamID = StepMetadata.TeamID (metadata step),
                  Env = metadata_Env w (metadata step)\<rparr>,
               workerSpec =
                 \<lparr>ResourceType = GetPlan.Type (plan step),
                  Tags = GetPlan.Tags (plan step),
                  WorkerSpec.TeamID = StepMetadata.TeamID (metadata step),
                  ResourceTypes = resourceTypes\<rparr>,
               GetRequest.containerMetadata = GetStep.containerMetadata step,
               imageResourceTypes = resourceTypes,
               processSpec =
                 \<lparr>Path = ''/opt/resource/in'', Args = [ResourcesDir w ''get'']\<rparr>,
               resourceCache = cache,
               resourceToGet = (source, params, version)\<rparr>)))))"

text \<open>
  \<^verbatim>\<open>GetStep.run\<close>: the calls made, the step afterwards, and the error returned
  (\<open>None\<close> for nil).
\<close>

definition GetStep_run :: "getWorld \<Rightarrow> GetStep \<Rightarrow> getCall list \<times> GetStep \<times> error option" where
  "GetStep_run w step =
     (case getRequest w step of
        Inl err \<Rightarrow> ([Initializing], step, Some err)
      | Inr request \<Rightarrow>
          (case RunGetStep w request of
             Inl err \<Rightarrow> ([Initializing], step, Some err)
           | Inr getResult \<Rightarrow>
               if ExitStatus getResult = 0 then
                 ([Initializing,
                   RegisterArtifact (GetPlan.Name (plan step)) (GetArtifact getResult)]
                    @ (if GetPlan.Resource (plan step) \<noteq> []
                       then [UpdateVersion (plan step) (VersionResult getResult)] else [])
                    @ [Finished (ExitStatus getResult) (VersionResult getResult)],
                  step\<lparr>succeeded := True\<rparr>, None)
               else
                 ([Initializing, Finished (ExitStatus getResult) (VersionResult getResult)],
                  step, None)))"

text \<open>\<^verbatim>\<open>GetStep.Succeeded\<close>.\<close>

definition GetStep_Succeeded :: "GetStep \<Rightarrow> bool" where
  "GetStep_Succeeded step = succeeded step"

subsection \<open>An example run\<close>

definition getPlanR :: GetPlan where
  "getPlanR =
     \<lparr>Name = ''r'', Type = ''git'', Resource = ''r'', Source = [(''uri'', ''x'')], Params = [],
      Version = None, Tags = [], VersionedResourceTypes = []\<rparr>"

definition metadata1 :: StepMetadata where
  "metadata1 =
     \<lparr>StepMetadata.BuildID = 1, BuildName = ''1'', TeamID = 1, TeamName = ''main'', JobID = 1,
      JobName = ''job'', PipelineID = 1, PipelineName = ''p'', ResourceConfigScopeID = 0,
      ResourceConfigID = 0, BaseResourceTypeID = 0, ExternalURL = []\<rparr>"

definition containerMetadata1 :: ContainerMetadata where
  "containerMetadata1 =
     \<lparr>Type = ''get'', StepName = ''r'', Attempt = [], PipelineID = 1, JobID = 1, BuildID = 1,
      PipelineName = ''p'', JobName = ''job'', BuildName = ''1''\<rparr>"

text \<open>Every evaluation succeeds, and the process exits with the given status.\<close>

definition exitingWorld :: "int \<Rightarrow> getWorld" where
  "exitingWorld status =
     \<lparr>creds_Source = Inr, creds_Params = Inr, creds_VersionedResourceTypes = Inr,
      versionSource_Version = (\<lambda>p. Inr Map.empty),
      metadata_Env = (\<lambda>m. []),
      FindOrCreateResourceCache = (\<lambda>buildID typ version source params types. Inr 7),
      ResourcesDir = (\<lambda>n. ''/tmp/build/'' @ n),
      RunGetStep =
        (\<lambda>request. Inr \<lparr>ExitStatus = status,
                          VersionResult = \<lparr>Version = [''ref'' \<mapsto> ''abc''], Metadata = []\<rparr>,
                          GetArtifact = NamedArtifact ''volume-1''\<rparr>)\<rparr>"

section \<open>The plan model (package atc)\<close>

text \<open>
  The leaf plans, by the fields the builder reads and a few more; \<^verbatim>\<open>atc.GetPlan\<close>
  and \<^verbatim>\<open>atc.CheckPlan\<close> are above.
\<close>

record PutPlan =
  Name :: string
  Type :: string
  Resource :: string

record TaskPlan =
  Name :: string
  ConfigPath :: string

record SetPipelinePlan =
  Name :: string
  File :: string

record LoadVarPlan =
  Name :: string
  File :: string

record ArtifactInputPlan =
  ArtifactID :: int
  Name :: string

record ArtifactOutputPlan =
  Name :: string

text \<open>
  The combinator plans, over the type of plans: the five hooks
  (\<^verbatim>\<open>OnSuccessPlan\<close>, \<^verbatim>\<open>OnFailurePlan\<close>, \<^verbatim>\<open>OnAbortPlan\<close>,
  \<^verbatim>\<open>OnErrorPlan\<close>, \<^verbatim>\<open>EnsurePlan\<close>) have the same two fields.
\<close>

datatype 'plan HookPlan = HookPlan (Step: 'plan) (Next: 'plan)

datatype 'plan InParallelPlan =
  InParallelPlan (Steps: "'plan list") (Limit: int) (FailFast: bool)

datatype 'plan TimeoutPlan = TimeoutPlan (Step: 'plan) (Duration: string)

datatype 'plan TryPlan = TryPlan (Step: 'plan)

datatype AcrossVar = AcrossVar (Var: string) (Values: "string list") (MaxInFlight: int)

datatype 'plan VarScopedPlan = VarScopedPlan (Step: 'plan) (Values: "string list")

datatype 'plan AcrossPlan =
  AcrossPlan (Vars: "AcrossVar list") (Steps: "'plan VarScopedPlan list") (FailFast: bool)

text \<open>
  \<^verbatim>\<open>atc.Plan\<close>: an id, the attempts, and one pointer per variant, nil (\<open>None\<close>)
  or set.  The type does not say how many are set.  \<^verbatim>\<open>DoPlan\<close>,
  \<^verbatim>\<open>AggregatePlan\<close> and \<^verbatim>\<open>RetryPlan\<close> are slices of plans.
\<close>

datatype Plan = Plan
  (ID: string)
  (Attempts: "int list")
  (Get: "GetPlan option")
  (Put: "PutPlan option")
  (Check: "CheckPlan option")
  (Task: "TaskPlan option")
  (SetPipeline: "SetPipelinePlan option")
  (LoadVar: "LoadVarPlan option")
  (Do: "Plan list option")
  (InParallel: "Plan InParallelPlan option")
  (Aggregate: "Plan list option")
  (Across: "Plan AcrossPlan option")
  (OnSuccess: "Plan HookPlan option")
  (OnFailure: "Plan HookPlan option")
  (OnAbort: "Plan HookPlan option")
  (OnError: "Plan HookPlan option")
  (Ensure: "Plan HookPlan option")
  (Try: "Plan TryPlan option")
  (Timeout: "Plan TimeoutPlan option")
  (Retry: "Plan list option")
  (ArtifactInput: "ArtifactInputPlan option")
  (ArtifactOutput: "ArtifactOutputPlan option")

text \<open>The assignment \<^verbatim>\<open>innerPlan.Attempts = attempts\<close> on a copy of a plan.\<close>

fun setAttempts :: "int list \<Rightarrow> Plan \<Rightarrow> Plan" where
  "setAttempts attempts
     (Plan i a g p c t s l d ip ag ac os ofl oa oe en tr ti r ai ao)
   = Plan i attempts g p c t s l d ip ag ac os ofl oa oe en tr ti r ai ao"

text \<open>The plan with no variant set, and plans with one.\<close>

definition emptyPlan :: "string \<Rightarrow> Plan" where
  "emptyPlan i =
     Plan i [] None None None None None None None None None None None None None None None
       None None None None None"

section \<open>The step builder (package builder)\<close>

subsection \<open>Data\<close>

text \<open>A \<^verbatim>\<open>db.Build\<close>, by the methods the builder calls.\<close>

record db_Build =
  Schema :: string
  PrivatePlan :: Plan
  ID :: int
  Name :: string
  TeamID :: int
  TeamName :: string
  JobID :: int
  JobName :: string
  PipelineID :: int
  PipelineName :: string

text \<open>
  The steps of package exec that the builder puts together, and the steps the step
  factory is asked for, each with the arguments it is called with (the delegate
  factory is made of the build and the id of the plan, which are among them).
\<close>

datatype Step =
    IdentityStep
  | AggregateStep "Step list"
  | InParallelStep "Step list" int bool
  | AcrossStep Step "string list" string StepMetadata
  | OnSuccessStep Step Step
  | OnFailureStep Step Step
  | OnAbortStep Step Step
  | OnErrorStep Step Step
  | EnsureStep Step Step
  | TryStep Step
  | TimeoutStep Step string
  | RetryStep "Step list"
  | Factory_GetStep Plan StepMetadata ContainerMetadata
  | Factory_PutStep Plan StepMetadata ContainerMetadata
  | Factory_TaskStep Plan StepMetadata ContainerMetadata
  | Factory_SetPipelineStep Plan StepMetadata
  | Factory_LoadVarStep Plan StepMetadata
  | Factory_ArtifactInputStep Plan db_Build
  | Factory_ArtifactOutputStep Plan db_Build

text \<open>
  The \<^verbatim>\<open>stepBuilder\<close>; its step factory is an interface, whose steps are the
  constructors \<open>Factory_\<dots>\<close> above.

  \<^verbatim>\<open>buildAcrossStep\<close> wraps the value of a variable \<^verbatim>\<open>step\<close> that the
  source reads and does not bind.  That value is the field \<open>acrossStep\<close>: any
  function of the build and the plan, \<open>None\<close> where computing it panics.
\<close>

record stepBuilder =
  externalURL :: string
  acrossStep :: "db_Build \<Rightarrow> Plan \<Rightarrow> Step option"

definition supportedSchema :: string where
  "supportedSchema = ''exec.v2''"

definition ContainerTypeGet :: string where
  "ContainerTypeGet = ''get''"

definition ContainerTypePut :: string where
  "ContainerTypePut = ''put''"

definition ContainerTypeTask :: string where
  "ContainerTypeTask = ''task''"

subsection \<open>Metadata\<close>

text \<open>\<^verbatim>\<open>strconv.Itoa\<close>: the decimal digits, after a minus sign below zero.\<close>

function digits :: "nat \<Rightarrow> string" where
  "digits n =
     (if n < 10 then [''0123456789'' ! n] else digits (n div 10) @ [''0123456789'' ! (n mod 10)])"
  by pat_completeness auto
termination
  by (relation "measure id") auto

definition Itoa :: "int \<Rightarrow> string" where
  "Itoa i = (if i < 0 then ''-'' @ digits (nat (- i)) else digits (nat i))"

text \<open>\<^verbatim>\<open>strings.Join\<close>.\<close>

fun Join :: "string list \<Rightarrow> string \<Rightarrow> string" where
  "Join [] sep = []"
| "Join [s] sep = s"
| "Join (s # t # ss) sep = s @ sep @ Join (t # ss) sep"

definition containerMetadata ::
  "db_Build \<Rightarrow> string \<Rightarrow> string \<Rightarrow> int list \<Rightarrow> ContainerMetadata" where
  "containerMetadata bld containerType stepName attempts =
     \<lparr>ContainerMetadata.Type = containerType,
      StepName = stepName,
      Attempt = Join (map Itoa attempts) ''.'',
      PipelineID = db_Build.PipelineID bld,
      JobID = db_Build.JobID bld,
      BuildID = db_Build.ID bld,
      PipelineName = db_Build.PipelineName bld,
      JobName = db_Build.JobName bld,
      BuildName = db_Build.Name bld\<rparr>"

definition stepMetadata :: "db_Build \<Rightarrow> string \<Rightarrow> StepMetadata" where
  "stepMetadata bld url =
     \<lparr>StepMetadata.BuildID = db_Build.ID bld,
      BuildName = db_Build.Name bld,
      TeamID = db_Build.TeamID bld,
      TeamName = db_Build.TeamName bld,
      JobID = db_Build.JobID bld,
      JobName = db_Build.JobName bld,
      PipelineID = db_Build.PipelineID bld,
      PipelineName = db_Build.PipelineName bld,
      ResourceConfigScopeID = 0,
      ResourceConfigID = 0,
      BaseResourceTypeID = 0,
      ExternalURL = url\<rparr>"

subsection \<open>Compiling a plan\<close>

text \<open>
  A run-time panic of the builder (an index or a slice out of range) is \<open>None\<close>;
  it ends the compilation of the whole plan.

  \<^verbatim>\<open>buildStep\<close> tests the variants in the order of the source, and each
  \<^verbatim>\<open>build\<dots>Step\<close> method is the branch of its variant.  The loop of
  \<^verbatim>\<open>buildDoStep\<close> runs from the last inner plan to the first, wrapping the step
  built so far.  \<^verbatim>\<open>buildRetryStep\<close> ranges over the inner plans with their
  indices.

  In \<open>buildStep\<close> the attempts of a plan are the list of numbers that the slice
  \<^verbatim>\<open>plan.Attempts\<close> holds when the plan is read, and the steps record the plans
  and the container metadata (a string) as they are when the step factory is called.
  The arrays behind the slices, into which \<^verbatim>\<open>append(plan.Attempts, index+1)\<close>
  may write, are followed in \<open>buildStep_slices\<close> below.

  \<^verbatim>\<open>buildAcrossInParallelStep\<close> is called from nowhere in the source, and calls
  a \<^verbatim>\<open>buildStep\<close> of three arguments that the source does not declare; it is
  left out.
\<close>

function buildStep :: "stepBuilder \<Rightarrow> db_Build \<Rightarrow> Plan \<Rightarrow> Step option" where
  "buildStep builder bld pln =
     (case Aggregate pln of  \<comment> \<open>buildAggregateStep\<close>
        Some innerPlans \<Rightarrow>
          map_option AggregateStep
            (those (map (\<lambda>innerPlan. buildStep builder bld (setAttempts (Attempts pln) innerPlan))
                      innerPlans))
      | None \<Rightarrow>
     (case InParallel pln of  \<comment> \<open>buildParallelStep\<close>
        Some inParallel \<Rightarrow>
          map_option (\<lambda>steps. InParallelStep steps (Limit inParallel)
                                (InParallelPlan.FailFast inParallel))
            (those (map (\<lambda>innerPlan. buildStep builder bld (setAttempts (Attempts pln) innerPlan))
                      (InParallelPlan.Steps inParallel)))
      | None \<Rightarrow>
     (case Across pln of  \<comment> \<open>buildAcrossStep\<close>
        Some across \<Rightarrow>
          map_option (\<lambda>step. AcrossStep step (map Var (Vars across)) (Plan.ID pln)
                               (stepMetadata bld (externalURL builder)))
            (acrossStep builder bld pln)
      | None \<Rightarrow>
     (case Do pln of  \<comment> \<open>buildDoStep\<close>
        Some innerPlans \<Rightarrow>
          foldl (\<lambda>step innerPlan.
                   do {
                     next \<leftarrow> step;
                     previous \<leftarrow> buildStep builder bld (setAttempts (Attempts pln) innerPlan);
                     Some (OnSuccessStep previous next)
                   })
            (Some IdentityStep) (rev innerPlans)
      | None \<Rightarrow>
     (case Timeout pln of  \<comment> \<open>buildTimeoutStep\<close>
        Some timeout \<Rightarrow>
          do {
            step \<leftarrow> buildStep builder bld (setAttempts (Attempts pln) (TimeoutPlan.Step timeout));
            Some (TimeoutStep step (Duration timeout))
          }
      | None \<Rightarrow>
     (case Try pln of  \<comment> \<open>buildTryStep\<close>
        Some tryPlan \<Rightarrow>
          do {
            step \<leftarrow> buildStep builder bld (setAttempts (Attempts pln) (TryPlan.Step tryPlan));
            Some (TryStep step)
          }
      | None \<Rightarrow>
     (case OnAbort pln of  \<comment> \<open>buildOnAbortStep\<close>
        Some hook \<Rightarrow>
          do {
            step \<leftarrow> buildStep builder bld (setAttempts (Attempts pln) (HookPlan.Step hook));
            next \<leftarrow> buildStep builder bld (setAttempts (Attempts pln) (Next hook));
            Some (OnAbortStep step next)
          }
      | None \<Rightarrow>
     (case OnError pln of  \<comment> \<open>buildOnErrorStep\<close>
        Some hook \<Rightarrow>
          do {
            step \<leftarrow> buildStep builder bld (setAttempts (Attempts pln) (HookPlan.Step hook));
            next \<leftarrow> buildStep builder bld (setAttempts (Attempts pln) (Next hook));
            Some (OnErrorStep step next)
          }
      | None \<Rightarrow>
     (case OnSuccess pln of  \<comment> \<open>buildOnSuccessStep\<close>
        Some hook \<Rightarrow>
          do {
            step \<leftarrow> buildStep builder bld (setAttempts (Attempts pln) (HookPlan.Step hook));
            next \<leftarrow> buildStep builder bld (setAttempts (Attempts pln) (Next hook));
            Some (OnSuccessStep step next)
          }
      | None \<Rightarrow>
     (case OnFailure pln of  \<comment> \<open>buildOnFailureStep\<close>
        Some hook \<Rightarrow>
          do {
            step \<leftarrow> buildStep builder bld (setAttempts (Attempts pln) (HookPlan.Step hook));
            next \<leftarrow> buildStep builder bld (setAttempts (Attempts pln) (Next hook));
            Some (OnFailureStep step next)
          }
      | None \<Rightarrow>
     (case Ensure pln of  \<comment> \<open>buildEnsureStep\<close>
        Some hook \<Rightarrow>
          do {
            step \<leftarrow> buildStep builder bld (setAttempts (Attempts pln) (HookPlan.Step hook));
            next \<leftarrow> buildStep builder bld (setAttempts (Attempts pln) (Next hook));
            Some (EnsureStep step next)
          }
      | None \<Rightarrow>
     (case Task pln of  \<comment> \<open>buildTaskStep\<close>
        Some task \<Rightarrow>
          Some (Factory_TaskStep pln (stepMetadata bld (externalURL builder))
                  (containerMetadata bld ContainerTypeTask (TaskPlan.Name task) (Attempts pln)))
      | None \<Rightarrow>
     (case SetPipeline pln of  \<comment> \<open>buildSetPipelineStep\<close>
        Some setPipeline \<Rightarrow>
          Some (Factory_SetPipelineStep pln (stepMetadata bld (externalURL builder)))
      | None \<Rightarrow>
     (case LoadVar pln of  \<comment> \<open>buildLoadVarStep\<close>
        Some loadVar \<Rightarrow>
          Some (Factory_LoadVarStep pln (stepMetadata bld (externalURL builder)))
      | None \<Rightarrow>
     (case Get pln of  \<comment> \<open>buildGetStep\<close>
        Some get \<Rightarrow>
          Some (Factory_GetStep pln (stepMetadata bld (externalURL builder))
                  (containerMetadata bld ContainerTypeGet (GetPlan.Name get) (Attempts pln)))
      | None \<Rightarrow>
     (case Put pln of  \<comment> \<open>buildPutStep\<close>
        Some put \<Rightarrow>
          Some (Factory_PutStep pln (stepMetadata bld (externalURL builder))
                  (containerMetadata bld ContainerTypePut (PutPlan.Name put) (Attempts pln)))
      | None \<Rightarrow>
     (case Retry pln of  \<comment> \<open>buildRetryStep\<close>
        Some innerPlans \<Rightarrow>
          map_option RetryStep
            (those (map (\<lambda>(index, innerPlan).
                           buildStep builder bld
                             (setAttempts (Attempts pln @ [int index + 1]) innerPlan))
                      (enumerate 0 innerPlans)))
      | None \<Rightarrow>
     (case ArtifactInput pln of  \<comment> \<open>buildArtifactInputStep\<close>
        Some artifactInput \<Rightarrow> Some (Factory_ArtifactInputStep pln bld)
      | None \<Rightarrow>
     (case ArtifactOutput pln of  \<comment> \<open>buildArtifactOutputStep\<close>
        Some artifactOutput \<Rightarrow> Some (Factory_ArtifactOutputStep pln bld)
      | None \<Rightarrow> Some IdentityStep)))))))))))))))))))"
  by pat_completeness auto
termination
proof -
  have attempts: "size (setAttempts attempts p) = size p" for attempts p
    by (cases p) simp
  have member: "f x < Suc (size_list f xs)" if "x \<in> set xs" for f :: "'a \<Rightarrow> nat" and x xs
    using that by (induction xs) auto
  have plans: "Aggregate pln = Some ps \<Longrightarrow> p \<in> set ps \<Longrightarrow> size p < size pln"
    "Do pln = Some ps \<Longrightarrow> p \<in> set ps \<Longrightarrow> size p < size pln"
    "Retry pln = Some ps \<Longrightarrow> p \<in> set ps \<Longrightarrow> size p < size pln" for p ps pln
    using member[of p ps size] by (cases pln; simp)+
  have attempt: "Retry pln = Some ps \<Longrightarrow> index < length ps \<Longrightarrow> size (ps ! index) < size pln"
    for ps index pln
    using plans(3)[of pln ps "ps ! index"] by simp
  have parallel: "InParallel pln = Some inParallel \<Longrightarrow> p \<in> set (InParallelPlan.Steps inParallel)
      \<Longrightarrow> size p < size pln" for p pln inParallel
    using member[of p "InParallelPlan.Steps inParallel" size]
    by (cases pln; cases inParallel; simp)
  have hooks:
    "OnSuccess pln = Some hook \<Longrightarrow> size (HookPlan.Step hook) < size pln"
    "OnSuccess pln = Some hook \<Longrightarrow> size (Next hook) < size pln"
    "OnFailure pln = Some hook \<Longrightarrow> size (HookPlan.Step hook) < size pln"
    "OnFailure pln = Some hook \<Longrightarrow> size (Next hook) < size pln"
    "OnAbort pln = Some hook \<Longrightarrow> size (HookPlan.Step hook) < size pln"
    "OnAbort pln = Some hook \<Longrightarrow> size (Next hook) < size pln"
    "OnError pln = Some hook \<Longrightarrow> size (HookPlan.Step hook) < size pln"
    "OnError pln = Some hook \<Longrightarrow> size (Next hook) < size pln"
    "Ensure pln = Some hook \<Longrightarrow> size (HookPlan.Step hook) < size pln"
    "Ensure pln = Some hook \<Longrightarrow> size (Next hook) < size pln" for hook pln
    by (cases pln; cases hook; simp)+
  have timeout: "Timeout pln = Some timeout \<Longrightarrow> size (TimeoutPlan.Step timeout) < size pln"
    for timeout pln
    by (cases pln; cases timeout; simp)
  have tried: "Try pln = Some tryPlan \<Longrightarrow> size (TryPlan.Step tryPlan) < size pln"
    for tryPlan pln
    by (cases pln; cases tryPlan; simp)
  show ?thesis
    by (relation "measure (\<lambda>(builder, bld, pln). size pln)")
      (auto simp: attempts plans attempt parallel hooks timeout tried in_set_enumerate_eq)
qed

declare buildStep.simps [simp del]

text \<open>
  \<^verbatim>\<open>stepBuilder.BuildStep\<close>, of a build that may be nil: the step and the error
  of the Go pair, or \<open>None\<close> for a panic.
\<close>

definition BuildStep ::
  "stepBuilder \<Rightarrow> db_Build option \<Rightarrow> (Step \<times> error option) option" where
  "BuildStep builder maybeBuild =
     (case maybeBuild of
        None \<Rightarrow> Some (IdentityStep, Some (Err ''must provide a build''))
      | Some bld \<Rightarrow>
          if Schema bld \<noteq> supportedSchema
          then Some (IdentityStep, Some (Err ''schema not supported''))
          else map_option (\<lambda>step. (step, None)) (buildStep builder bld (PrivatePlan bld)))"

subsection \<open>Example plans\<close>

text \<open>Plans with one variant set and no attempts, as the planner makes them.\<close>

definition getLeaf :: "string \<Rightarrow> GetPlan \<Rightarrow> Plan" where
  "getLeaf i g =
     Plan i [] (Some g) None None None None None None None None None None None None None None
       None None None None None"

definition doPlan :: "string \<Rightarrow> Plan list \<Rightarrow> Plan" where
  "doPlan i ps =
     Plan i [] None None None None None None (Some ps) None None None None None None None None
       None None None None None"

definition retryPlan :: "string \<Rightarrow> Plan list \<Rightarrow> Plan" where
  "retryPlan i ps =
     Plan i [] None None None None None None None None None None None None None None None
       None None (Some ps) None None"

definition builder1 :: stepBuilder where
  "builder1 = \<lparr>externalURL = ''https://ci'', acrossStep = (\<lambda>bld pln. Some IdentityStep)\<rparr>"

definition build1 :: "Plan \<Rightarrow> db_Build" where
  "build1 pln =
     \<lparr>Schema = ''exec.v2'', PrivatePlan = pln, ID = 1, Name = ''1'', TeamID = 1,
      TeamName = ''main'', JobID = 1, JobName = ''job'', PipelineID = 1,
      PipelineName = ''p''\<rparr>"

text \<open>The step metadata and the container metadata of the builder for \<open>build1\<close>.\<close>

definition metadataCI :: StepMetadata where
  "metadataCI = metadata1\<lparr>ExternalURL := ''https://ci''\<rparr>"

definition getMetadata :: "string \<Rightarrow> ContainerMetadata" where
  "getMetadata attempt = containerMetadata1\<lparr>Attempt := attempt\<rparr>"

subsection \<open>Vocabulary for the statements\<close>

text \<open>None of the variants that \<^verbatim>\<open>buildStep\<close> tests is set.\<close>

definition noVariant :: "Plan \<Rightarrow> bool" where
  "noVariant pln \<longleftrightarrow>
     Aggregate pln = None \<and> InParallel pln = None \<and> Across pln = None \<and> Do pln = None
     \<and> Timeout pln = None \<and> Try pln = None \<and> OnAbort pln = None \<and> OnError pln = None
     \<and> OnSuccess pln = None \<and> OnFailure pln = None \<and> Ensure pln = None \<and> Task pln = None
     \<and> SetPipeline pln = None \<and> LoadVar pln = None \<and> Get pln = None \<and> Put pln = None
     \<and> Retry pln = None \<and> ArtifactInput pln = None \<and> ArtifactOutput pln = None"

section \<open>Running steps (package exec)\<close>

text \<open>
  How a run of a step ends: it ran to completion and succeeded, it ran to completion
  and failed, or it errored.
\<close>

datatype status = Success | Failure | Errored error

text \<open>
  Modelled from the spec: \<^verbatim>\<open>exec.OnSuccess\<close> and \<^verbatim>\<open>exec.IdentityStep\<close> are
  not among the source files.  The spec says: ``OnSuccess(a, b): run a; if
  a.Succeeded, run b; overall succeeded iff a.Succeeded and b.Succeeded. a errored:
  surface, skip b. If b errors, surface.''  It does not describe the identity step;
  it is taken to do nothing and succeed.  Every other step runs as the parameter
  \<open>run\<close> says.  A run takes the run state and returns it.
\<close>

fun runStep :: "(Step \<Rightarrow> 's \<Rightarrow> status \<times> 's) \<Rightarrow> Step \<Rightarrow> 's \<Rightarrow> status \<times> 's" where
  "runStep run IdentityStep s = (Success, s)"
| "runStep run (OnSuccessStep a b) s =
     (case runStep run a s of
        (Success, s') \<Rightarrow> runStep run b s'
      | (Failure, s') \<Rightarrow> (Failure, s')
      | (Errored err, s') \<Rightarrow> (Errored err, s'))"
| "runStep run other s = run other s"

text \<open>
  Modelled from the spec: ``Do[s1, ..., sn]: run s1; if success run s2; ...
  Succeeded = sn.Succeeded if reached, else last-run child's. On first non-success,
  skip the rest. Errored short-circuits.''  The children run as \<open>child\<close> says.  Of a
  Do without children the spec says nothing; it is taken to succeed.
\<close>

fun runDo :: "(Step \<Rightarrow> 's \<Rightarrow> status \<times> 's) \<Rightarrow> Step list \<Rightarrow> 's \<Rightarrow> status \<times> 's" where
  "runDo child [] s = (Success, s)"
| "runDo child [c] s = child c s"
| "runDo child (c # cs) s =
     (case child c s of
        (Success, s') \<Rightarrow> runDo child cs s'
      | (Failure, s') \<Rightarrow> (Failure, s')
      | (Errored err, s') \<Rightarrow> (Errored err, s'))"

text \<open>
  An example of running leaves: the run state is the list of the plan ids of the
  get steps run so far; the get step of plan \<open>bad\<close> fails, every other succeeds.
\<close>

fun runLeaf :: "string \<Rightarrow> Step \<Rightarrow> string list \<Rightarrow> status \<times> string list" where
  "runLeaf bad (Factory_GetStep pln m cm) s =
     (if Plan.ID pln = bad then Failure else Success, s @ [Plan.ID pln])"
| "runLeaf bad other s = (Success, s)"

definition doThree :: Plan where
  "doThree =
     doPlan ''1'' [getLeaf ''2'' getPlanR, getLeaf ''3'' getPlanR, getLeaf ''4'' getPlanR]"

section \<open>Properties of the check coordinator\<close>

lemma after_after: "after xs (after ys r) = after (xs @ ys) r"
  by (simp add: after_def)

lemma after_Nil: "after [] r = r"
  by (simp add: after_def)

lemma waitLoop_no_limiter: "LimiterWait \<notin> set (fst (waitLoop d w i fuel))"
  by (induction fuel arbitrary: i)
    (auto simp: after_def split: sum.splits option.splits if_splits)

lemma waitBody_no_limiter: "LimiterWait \<notin> set (fst (waitBody d w fuel))"
  by (simp add: waitBody_def waitLoop_no_limiter split: sum.splits)

text \<open>
  C4.  \<^verbatim>\<open>WaitToRun\<close> calls \<^verbatim>\<open>limiter.Wait\<close> exactly when the check is not
  manually triggered (\<open>SkipInterval\<close> is false), its interval is not \<open>Never\<close>, and it
  is the check of a resource (\<open>Resource\<close> is not the empty string), whatever the
  collaborators answer and however long the loop runs.  So a manual check never calls
  it, and a resource-type or prototype check never calls it.
\<close>

theorem limiter_Wait_iff:
  "LimiterWait \<in> set (fst (WaitToRun d w fuel))
   \<longleftrightarrow> (\<not> SkipInterval (checkDelegate.plan d) \<and> \<not> Never (CheckPlan.Interval (checkDelegate.plan d)) \<and> CheckPlan.Resource (checkDelegate.plan d) \<noteq> [])"
  by (simp add: WaitToRun_def after_def waitBody_no_limiter split: option.splits)

lemma waitLoop_spin_step:
  "spins d w i \<Longrightarrow> waitLoop d w i (Suc fuel)
     = after [ReadLastCheck, AcquireLock, Sleep] (waitLoop d w (Suc i) fuel)"
  by (auto simp: spins_def manualReuses_def gateRejects_def
      split: sum.splits option.splits if_splits)

lemma waitLoop_spins:
  "(\<forall>j<k. spins d w (i + j)) \<Longrightarrow> waitLoop d w i (k + fuel)
     = after (concat (replicate k [ReadLastCheck, AcquireLock, Sleep]))
         (waitLoop d w (i + k) fuel)"
proof (induction k arbitrary: i)
  case 0
  show ?case by (simp add: after_Nil)
next
  case (Suc k)
  from Suc.prems have first: "spins d w i"
    by (metis add.right_neutral zero_less_Suc)
  from Suc.prems have rest: "\<forall>j<k. spins d w (Suc i + j)"
    by (metis Suc_less_eq add_Suc_shift)
  have "waitLoop d w i (Suc k + fuel)
      = after [ReadLastCheck, AcquireLock, Sleep] (waitLoop d w (Suc i) (k + fuel))"
    using waitLoop_spin_step[OF first, of "k + fuel"] by simp
  also have "\<dots> = after [ReadLastCheck, AcquireLock, Sleep]
      (after (concat (replicate k [ReadLastCheck, AcquireLock, Sleep]))
         (waitLoop d w (Suc i + k) fuel))"
    using Suc.IH[OF rest] by simp
  finally show ?case by (simp add: after_after)
qed

text \<open>
  When the first \<open>n\<close> iterations go round and the loop may start more than \<open>n\<close>,
  it reaches iteration \<open>n\<close>.
\<close>

lemma waitLoop_reach:
  assumes "\<forall>j<n. spins d w j" and "n < fuel"
  shows "waitLoop d w 0 fuel
     = after (concat (replicate n [ReadLastCheck, AcquireLock, Sleep]))
         (waitLoop d w n (Suc (fuel - Suc n)))"
proof -
  have "fuel = n + Suc (fuel - Suc n)" using assms(2) by simp
  then have "waitLoop d w 0 fuel = waitLoop d w 0 (n + Suc (fuel - Suc n))" by simp
  also have "\<dots> = after (concat (replicate n [ReadLastCheck, AcquireLock, Sleep]))
      (waitLoop d w (0 + n) (Suc (fuel - Suc n)))"
    using assms(1) by (intro waitLoop_spins) simp
  finally show ?thesis by simp
qed

lemma WaitToRun_periodic:
  assumes "IsPeriodic (checkDelegate.plan d)" and "SkipInterval (checkDelegate.plan d) \<or> \<not> Never (CheckPlan.Interval (checkDelegate.plan d))"
    and "limiterCalls d = [] \<or> limiter_Wait w = None"
  shows "WaitToRun d w fuel = after (limiterCalls d) (waitLoop d w 0 fuel)"
  using assms by (auto simp: WaitToRun_def waitBody_def limiterCalls_def after_Nil)

lemma WaitToRun_reach:
  assumes "IsPeriodic (checkDelegate.plan d)" and "SkipInterval (checkDelegate.plan d) \<or> \<not> Never (CheckPlan.Interval (checkDelegate.plan d))"
    and "limiterCalls d = [] \<or> limiter_Wait w = None"
    and "\<forall>j<n. spins d w j" and "n < fuel"
  shows "WaitToRun d w fuel
     = after (limiterCalls d @ concat (replicate n [ReadLastCheck, AcquireLock, Sleep]))
         (waitLoop d w n (Suc (fuel - Suc n)))"
  using WaitToRun_periodic[OF assms(1-3), of fuel] waitLoop_reach[OF assms(4,5)]
  by (simp add: after_after)

text \<open>
  C1, as the code has it.  For a periodic check (\<open>IsPeriodic\<close>, \<open>SkipInterval\<close>
  false, interval not \<open>Never\<close>, the rate limiter lets it pass), take any run whose
  first \<open>n\<close> iterations go round and whose iteration \<open>n\<close> reads \<open>lastCheck\<close>.  The
  interval gate is evaluated on that reading, before the lock is asked for: if it
  rejects, \<^verbatim>\<open>WaitToRun\<close> returns (nil lock, false) and iteration \<open>n\<close> asks for no
  lock; if it lets the check pass and the lock is acquired, \<^verbatim>\<open>WaitToRun\<close> returns
  (that lock, true) at once.  The acquisition is the last call of the run:
  \<^verbatim>\<open>LastCheck\<close> has been read \<open>n + 1\<close> times, once per iteration, and what a
  further reading would answer plays no part.
\<close>

theorem periodic_gate_precedes_lock:
  assumes "IsPeriodic (checkDelegate.plan d)" and "\<not> SkipInterval (checkDelegate.plan d)"
    and "\<not> Never (CheckPlan.Interval (checkDelegate.plan d))"
    and "limiterCalls d = [] \<or> limiter_Wait w = None"
    and "\<forall>j<n. spins d w j" and "n < fuel"
    and "scope_LastCheck w n = Inr lastCheck"
  shows "(gateRejects d w n lastCheck \<longrightarrow>
            WaitToRun d w fuel
            = (limiterCalls d @ concat (replicate n [ReadLastCheck, AcquireLock, Sleep])
                 @ [ReadLastCheck],
               Some (NilLock, False, None)))
       \<and> (\<not> gateRejects d w n lastCheck
            \<and> scope_AcquireResourceCheckingLock w n = Inr (lock, True) \<longrightarrow>
            WaitToRun d w fuel
            = (limiterCalls d @ concat (replicate n [ReadLastCheck, AcquireLock, Sleep])
                 @ [ReadLastCheck, AcquireLock],
               Some (lock, True, None)))"
proof -
  have "SkipInterval (checkDelegate.plan d) \<or> \<not> Never (CheckPlan.Interval (checkDelegate.plan d))"
    using assms(3) by simp
  note run = WaitToRun_reach[OF assms(1) this assms(4,5,6)]
  show ?thesis
    using assms(2,7) unfolding run
    by (simp add: after_def gateRejects_def)
qed

lemma spins_contended_0: "spins lidarCheck contendedWorld 0"
  by (simp add: spins_def lidarCheck_def contendedWorld_def gateRejects_def)

theorem periodic_gate_precedes_lock_witness:
  "WaitToRun lidarCheck contendedWorld 5
   = ([LimiterWait, ReadLastCheck, AcquireLock, Sleep, ReadLastCheck, AcquireLock],
      Some (ResourceCheckingLock, True, None))
   \<and> WaitToRun lidarCheck freshWorld 5
   = ([LimiterWait, ReadLastCheck], Some (NilLock, False, None))"
proof -
  have p: "IsPeriodic (checkDelegate.plan lidarCheck)" "\<not> SkipInterval (checkDelegate.plan lidarCheck)"
    "\<not> Never (CheckPlan.Interval (checkDelegate.plan lidarCheck))"
    by (simp_all add: lidarCheck_def)
  have lim: "limiterCalls lidarCheck = [LimiterWait]"
    by (simp add: limiterCalls_def lidarCheck_def)
  have ok: "limiterCalls lidarCheck = [] \<or> limiter_Wait contendedWorld = None"
    "limiterCalls lidarCheck = [] \<or> limiter_Wait freshWorld = None"
    by (simp_all add: contendedWorld_def freshWorld_def)
  have sp: "\<forall>j<1. spins lidarCheck contendedWorld j"
    using spins_contended_0 by simp
  have lc: "scope_LastCheck contendedWorld 1
      = Inr \<lparr>LastCheck.StartTime = 0, EndTime = 10, Succeeded = True\<rparr>"
    by (simp add: contendedWorld_def)
  have pass: "\<not> gateRejects lidarCheck contendedWorld 1
           \<lparr>LastCheck.StartTime = 0, EndTime = 10, Succeeded = True\<rparr>"
    "scope_AcquireResourceCheckingLock contendedWorld 1 = Inr (ResourceCheckingLock, True)"
    by (simp_all add: gateRejects_def lidarCheck_def contendedWorld_def)
  have acquired: "WaitToRun lidarCheck contendedWorld 5
      = ([LimiterWait, ReadLastCheck, AcquireLock, Sleep, ReadLastCheck, AcquireLock],
         Some (ResourceCheckingLock, True, None))"
    using periodic_gate_precedes_lock[where n = 1 and fuel = 5
        and lock = ResourceCheckingLock, OF p ok(1) sp _ lc] pass lim
    by simp
  have lc': "scope_LastCheck freshWorld 0
      = Inr \<lparr>LastCheck.StartTime = 95, EndTime = 99, Succeeded = True\<rparr>"
    by (simp add: freshWorld_def)
  have none: "\<forall>j<0. spins lidarCheck freshWorld j"
    by simp
  have "gateRejects lidarCheck freshWorld 0
          \<lparr>LastCheck.StartTime = 95, EndTime = 99, Succeeded = True\<rparr>"
    by (simp add: gateRejects_def lidarCheck_def freshWorld_def)
  then have rejected: "WaitToRun lidarCheck freshWorld 5
      = ([LimiterWait, ReadLastCheck], Some (NilLock, False, None))"
    using periodic_gate_precedes_lock[where n = 0 and fuel = 5, OF p ok(2) none _ lc'] lim
    by simp
  from acquired rejected show ?thesis by simp
qed

text \<open>
  C1, as stated, fails on the code.  In \<open>racedWorld\<close> the gate lets the first reading
  pass and rejects what any later reading of \<^verbatim>\<open>LastCheck\<close> answers; the lock is
  acquired in the first iteration.  \<^verbatim>\<open>WaitToRun\<close> returns (lock, true) after one
  reading: it does not read again, and it does not return false.
\<close>

theorem periodic_no_recheck_counterexample:
  "IsPeriodic (checkDelegate.plan lidarCheck) \<and> \<not> SkipInterval (checkDelegate.plan lidarCheck)
   \<and> scope_LastCheck racedWorld 1
       = Inr \<lparr>LastCheck.StartTime = 95, EndTime = 99, Succeeded = True\<rparr>
   \<and> gateRejects lidarCheck racedWorld 1
       \<lparr>LastCheck.StartTime = 95, EndTime = 99, Succeeded = True\<rparr>
   \<and> WaitToRun lidarCheck racedWorld 3
       = ([LimiterWait, ReadLastCheck, AcquireLock], Some (ResourceCheckingLock, True, None))"
  by (simp add: WaitToRun_def waitBody_def after_def gateRejects_def lidarCheck_def
      racedWorld_def numeral_3_eq_3)

lemma waitLoop_from_version_runs:
  assumes "SkipInterval (checkDelegate.plan d)" and "FromVersion (checkDelegate.plan d) \<noteq> None"
  shows "snd (waitLoop d w i fuel) \<noteq> Some (lock, False, None)"
  using assms
  by (induction fuel arbitrary: i)
    (auto simp: after_def split: sum.splits option.splits if_splits)

lemma waitLoop_asks_lock:
  assumes "scope_LastCheck w i = Inr lastCheck"
    and "\<not> (if SkipInterval (checkDelegate.plan d) then manualReuses d lastCheck
            else gateRejects d w i lastCheck)"
  shows "take 2 (fst (waitLoop d w i (Suc fuel))) = [ReadLastCheck, AcquireLock]"
  using assms
  by (auto simp: manualReuses_def gateRejects_def after_def numeral_2_eq_2
      split: sum.splits option.splits if_splits)

text \<open>
  C5.  For a manually triggered periodic check (\<open>IsPeriodic\<close>, \<open>SkipInterval\<close> true),
  take any run whose first \<open>n\<close> iterations go round and whose iteration \<open>n\<close> reads
  \<open>lastCheck\<close>.  Without a \<open>FromVersion\<close>, if \<open>lastCheck\<close> succeeded and the build was
  created before it started, \<^verbatim>\<open>WaitToRun\<close> returns (nil lock, false), and iteration
  \<open>n\<close> asks for no lock.  With a \<open>FromVersion\<close> the result is never the reuse
  (no error, false), whatever the collaborators answer, and the reading of iteration
  \<open>n\<close> is followed at once by the request for the lock; if the lock is granted
  there, \<^verbatim>\<open>WaitToRun\<close> returns (that lock, true, no error) and the request is the
  last call of the run.
\<close>

theorem manual_check_reuse:
  assumes "IsPeriodic (checkDelegate.plan d)" and "SkipInterval (checkDelegate.plan d)"
    and "\<forall>j<n. spins d w j" and "n < fuel"
    and "scope_LastCheck w n = Inr lastCheck"
  shows "(FromVersion (checkDelegate.plan d) = None \<and> Succeeded lastCheck
            \<and> CreateTime (checkDelegate.build d) < LastCheck.StartTime lastCheck \<longrightarrow>
            WaitToRun d w fuel
            = (concat (replicate n [ReadLastCheck, AcquireLock, Sleep]) @ [ReadLastCheck],
               Some (NilLock, False, None)))
       \<and> (FromVersion (checkDelegate.plan d) \<noteq> None \<longrightarrow>
            (\<forall>fuel' lock. snd (WaitToRun d w fuel') \<noteq> Some (lock, False, None))
            \<and> take (3 * n + 2) (fst (WaitToRun d w fuel))
              = concat (replicate n [ReadLastCheck, AcquireLock, Sleep])
                @ [ReadLastCheck, AcquireLock])
       \<and> (FromVersion (checkDelegate.plan d) \<noteq> None
            \<and> scope_AcquireResourceCheckingLock w n = Inr (granted, True) \<longrightarrow>
            WaitToRun d w fuel
            = (concat (replicate n [ReadLastCheck, AcquireLock, Sleep])
                 @ [ReadLastCheck, AcquireLock],
               Some (granted, True, None)))"
proof -
  have lim: "limiterCalls d = []"
    using assms(2) by (simp add: limiterCalls_def)
  have run: "WaitToRun d w fuel
      = after (concat (replicate n [ReadLastCheck, AcquireLock, Sleep]))
          (waitLoop d w n (Suc (fuel - Suc n)))"
    using WaitToRun_reach[OF assms(1), of w n fuel] assms(2,3,4) lim by simp
  have len: "length (concat (replicate n [ReadLastCheck, AcquireLock, Sleep])) = 3 * n"
    by (induction n) simp_all
  have reuse: "WaitToRun d w fuel
      = (concat (replicate n [ReadLastCheck, AcquireLock, Sleep]) @ [ReadLastCheck],
         Some (NilLock, False, None))"
    if "FromVersion (checkDelegate.plan d) = None" and "Succeeded lastCheck"
      and "CreateTime (checkDelegate.build d) < LastCheck.StartTime lastCheck"
    using that assms(2,5) unfolding run by (simp add: after_def)
  have never: "snd (WaitToRun d w fuel') \<noteq> Some (lock, False, None)"
    if "FromVersion (checkDelegate.plan d) \<noteq> None" for fuel' lock
    using waitLoop_from_version_runs[OF assms(2) that, of w 0 fuel' lock] assms(1,2)
    by (simp add: WaitToRun_def waitBody_def)
  have asks: "take (3 * n + 2) (fst (WaitToRun d w fuel))
      = concat (replicate n [ReadLastCheck, AcquireLock, Sleep]) @ [ReadLastCheck, AcquireLock]"
    if "FromVersion (checkDelegate.plan d) \<noteq> None"
  proof -
    have "\<not> (if SkipInterval (checkDelegate.plan d) then manualReuses d lastCheck
              else gateRejects d w n lastCheck)"
      using that assms(2) by (simp add: manualReuses_def)
    from waitLoop_asks_lock[OF assms(5) this, of "fuel - Suc n"]
    show ?thesis unfolding run by (simp add: after_def len)
  qed
  have acquires: "WaitToRun d w fuel
      = (concat (replicate n [ReadLastCheck, AcquireLock, Sleep]) @ [ReadLastCheck, AcquireLock],
         Some (granted, True, None))"
    if "FromVersion (checkDelegate.plan d) \<noteq> None"
      and "scope_AcquireResourceCheckingLock w n = Inr (granted, True)"
    using that assms(2,5) unfolding run by (simp add: after_def)
  from reuse never asks acquires show ?thesis by blast
qed

theorem manual_check_reuse_witness:
  "WaitToRun manualCheck freshWorld 5 = ([ReadLastCheck], Some (NilLock, False, None))
   \<and> snd (WaitToRun manualCheckFrom freshWorld 5) \<noteq> Some (NilLock, False, None)
   \<and> take 2 (fst (WaitToRun manualCheckFrom freshWorld 5)) = [ReadLastCheck, AcquireLock]
   \<and> WaitToRun manualCheckFrom freshWorld 5
     = ([ReadLastCheck, AcquireLock], Some (ResourceCheckingLock, True, None))
   \<and> WaitToRun manualCheckFrom contendedWorld 5
     = ([ReadLastCheck, AcquireLock, Sleep, ReadLastCheck, AcquireLock],
        Some (ResourceCheckingLock, True, None))"
proof -
  have lc: "scope_LastCheck freshWorld 0
      = Inr \<lparr>LastCheck.StartTime = 95, EndTime = 99, Succeeded = True\<rparr>"
    by (simp add: freshWorld_def)
  have none: "\<forall>j<0. spins d freshWorld j" for d
    by simp
  have m: "IsPeriodic (checkDelegate.plan manualCheck)" "SkipInterval (checkDelegate.plan manualCheck)"
    "FromVersion (checkDelegate.plan manualCheck) = None" "CreateTime (checkDelegate.build manualCheck) < 95"
    by (simp_all add: manualCheck_def lidarCheck_def)
  have f: "IsPeriodic (checkDelegate.plan manualCheckFrom)" "SkipInterval (checkDelegate.plan manualCheckFrom)"
    "FromVersion (checkDelegate.plan manualCheckFrom) \<noteq> None"
    by (simp_all add: manualCheckFrom_def lidarCheck_def)
  have "WaitToRun manualCheck freshWorld 5 = ([ReadLastCheck], Some (NilLock, False, None))"
    using manual_check_reuse[where n = 0 and fuel = 5, OF m(1,2) none _ lc] m(3,4)
    by simp
  moreover have "snd (WaitToRun manualCheckFrom freshWorld 5) \<noteq> Some (NilLock, False, None)
      \<and> take 2 (fst (WaitToRun manualCheckFrom freshWorld 5)) = [ReadLastCheck, AcquireLock]"
    using manual_check_reuse[where n = 0 and fuel = 5, OF f(1,2) none _ lc] f(3)
    by (simp add: numeral_2_eq_2)
  moreover have "WaitToRun manualCheckFrom freshWorld 5
      = ([ReadLastCheck, AcquireLock], Some (ResourceCheckingLock, True, None))"
  proof -
    have "scope_AcquireResourceCheckingLock freshWorld 0 = Inr (ResourceCheckingLock, True)"
      by (simp add: freshWorld_def)
    then show ?thesis
      using manual_check_reuse[where n = 0 and fuel = 5 and granted = ResourceCheckingLock,
          OF f(1,2) none _ lc] f(3)
      by simp
  qed
  moreover have "WaitToRun manualCheckFrom contendedWorld 5
      = ([ReadLastCheck, AcquireLock, Sleep, ReadLastCheck, AcquireLock],
         Some (ResourceCheckingLock, True, None))"
  proof -
    have "spins manualCheckFrom contendedWorld 0"
      by (simp add: spins_def manualCheckFrom_def lidarCheck_def contendedWorld_def
          manualReuses_def)
    then have sp: "\<forall>j<1. spins manualCheckFrom contendedWorld j"
      by simp
    have lc1: "scope_LastCheck contendedWorld 1
        = Inr \<lparr>LastCheck.StartTime = 0, EndTime = 10, Succeeded = True\<rparr>"
      by (simp add: contendedWorld_def)
    have "scope_AcquireResourceCheckingLock contendedWorld 1 = Inr (ResourceCheckingLock, True)"
      by (simp add: contendedWorld_def)
    then show ?thesis
      using manual_check_reuse[where n = 1 and fuel = 5 and granted = ResourceCheckingLock,
          OF f(1,2) sp _ lc1] f(3)
      by simp
  qed
  ultimately show ?thesis by simp
qed

lemma waitBody_embedded:
  assumes "\<not> IsPeriodic (checkDelegate.plan d)"
  shows "waitBody d w fuel =
     (case scope_LastCheck w 0 of
        Inl err \<Rightarrow> ([ReadLastCheck], Some (NilLock, False, Some err))
      | Inr lastCheck \<Rightarrow>
          ([ReadLastCheck],
           Some (if Succeeded lastCheck \<and> Build.StartTime (checkDelegate.build d) < EndTime lastCheck
                 then (NilLock, False, None) else (NoopLock, True, None))))"
  using assms by (simp add: waitBody_def split: sum.splits)

text \<open>
  C6, as the code has it.  A step-embedded check (\<open>IsPeriodic\<close> false) never asks for
  the resource-checking lock, and the lock it returns is never one.  With
  \<open>SkipInterval\<close> false and the interval \<open>Never\<close> it returns (nil lock, false) at
  once, without a call.  Otherwise, when the rate limiter (asked only with
  \<open>SkipInterval\<close> false and a \<open>Resource\<close>) and \<^verbatim>\<open>LastCheck\<close> answer without
  error: if \<open>lastCheck\<close> succeeded and ended after the build started, the result is
  (nil lock, false), and else (no-op lock, true).  No bound on the loop is needed.
\<close>

theorem embedded_check_no_lock:
  assumes "\<not> IsPeriodic (checkDelegate.plan d)"
  shows "AcquireLock \<notin> set (fst (WaitToRun d w fuel))
       \<and> (\<forall>lock shouldRun err.
            snd (WaitToRun d w fuel) = Some (lock, shouldRun, err) \<longrightarrow> lock \<noteq> ResourceCheckingLock)
       \<and> (\<not> SkipInterval (checkDelegate.plan d) \<and> Never (CheckPlan.Interval (checkDelegate.plan d)) \<longrightarrow>
            WaitToRun d w fuel = ([], Some (NilLock, False, None)))
       \<and> ((SkipInterval (checkDelegate.plan d) \<or> \<not> Never (CheckPlan.Interval (checkDelegate.plan d)))
            \<and> (limiterCalls d = [] \<or> limiter_Wait w = None)
            \<and> scope_LastCheck w 0 = Inr lastCheck \<longrightarrow>
            WaitToRun d w fuel
            = (limiterCalls d @ [ReadLastCheck],
               Some (if Succeeded lastCheck \<and> Build.StartTime (checkDelegate.build d) < EndTime lastCheck
                     then (NilLock, False, None) else (NoopLock, True, None))))"
  using waitBody_embedded[OF assms, of w fuel]
  by (auto simp: WaitToRun_def limiterCalls_def after_def split: sum.splits option.splits)

theorem embedded_check_no_lock_witness:
  "WaitToRun embeddedCheck failedWorld 0 = ([ReadLastCheck], Some (NoopLock, True, None))
   \<and> WaitToRun embeddedCheck freshWorld 0 = ([ReadLastCheck], Some (NilLock, False, None))
   \<and> WaitToRun embeddedNeverCheck failedWorld 0 = ([], Some (NilLock, False, None))"
proof -
  have e: "\<not> IsPeriodic (checkDelegate.plan embeddedCheck)" "\<not> Never (CheckPlan.Interval (checkDelegate.plan embeddedCheck))"
    "limiterCalls embeddedCheck = []" "Build.StartTime (checkDelegate.build embeddedCheck) = 50"
    by (simp_all add: embeddedCheck_def limiterCalls_def)
  have n: "\<not> IsPeriodic (checkDelegate.plan embeddedNeverCheck)" "\<not> SkipInterval (checkDelegate.plan embeddedNeverCheck)"
    "Never (CheckPlan.Interval (checkDelegate.plan embeddedNeverCheck))"
    by (simp_all add: embeddedNeverCheck_def embeddedCheck_def)
  have failed: "scope_LastCheck failedWorld 0
      = Inr \<lparr>LastCheck.StartTime = 0, EndTime = 10, Succeeded = False\<rparr>"
    by (simp add: failedWorld_def)
  have fresh: "scope_LastCheck freshWorld 0
      = Inr \<lparr>LastCheck.StartTime = 95, EndTime = 99, Succeeded = True\<rparr>"
    by (simp add: freshWorld_def)
  have 1: "WaitToRun embeddedCheck failedWorld 0
      = ([ReadLastCheck], Some (NoopLock, True, None))"
    using embedded_check_no_lock[OF e(1), where w = failedWorld and fuel = 0] e(2,3) failed
    by simp
  have 2: "WaitToRun embeddedCheck freshWorld 0
      = ([ReadLastCheck], Some (NilLock, False, None))"
    using embedded_check_no_lock[OF e(1), where w = freshWorld and fuel = 0] e(2,3,4) fresh
    by simp
  have 3: "WaitToRun embeddedNeverCheck failedWorld 0 = ([], Some (NilLock, False, None))"
    using embedded_check_no_lock[OF n(1), where w = failedWorld and fuel = 0] n(2,3)
    by simp
  from 1 2 3 show ?thesis by simp
qed

text \<open>
  C6, as stated, fails on the code.  \<open>embeddedNeverCheck\<close> is step-embedded, and the
  last check failed, so C6 promises (no lock, true); \<^verbatim>\<open>WaitToRun\<close> leaves
  at the \<open>Never\<close> test with (nil lock, false).
\<close>

theorem embedded_never_counterexample:
  "\<not> IsPeriodic (checkDelegate.plan embeddedNeverCheck)
   \<and> scope_LastCheck failedWorld 0
       = Inr \<lparr>LastCheck.StartTime = 0, EndTime = 10, Succeeded = False\<rparr>
   \<and> WaitToRun embeddedNeverCheck failedWorld 4 = ([], Some (NilLock, False, None))"
  by (simp add: WaitToRun_def embeddedNeverCheck_def embeddedCheck_def failedWorld_def)

section \<open>Properties of the image fetcher\<close>

text \<open>
  C3, as the code has it.  When neither an image artifact nor a resource type is
  given, \<^verbatim>\<open>fetchImageForContainer\<close> returns, without error, the image whose URL is
  the given \<open>ImageURL\<close>, with empty metadata, no version and not privileged: so also
  when \<open>ImageURL\<close> is empty and no variant at all is set.  It fails with
  \<open>ErrUnsupportedResourceType\<close> when no image artifact is given and the resource type
  is not empty but is the type of none of the worker's resource types.
\<close>

theorem fetchImage_url_verbatim:
  "(ImageArtifact imageSpec = None \<and> ImageSpec.ResourceType imageSpec = [] \<longrightarrow>
      fetchImageForContainer lib worker imageSpec teamID container
      = Inr \<lparr>FetchedImage.Metadata = \<lparr>ImageMetadata.Env = [], User = []\<rparr>, Version = Map.empty,
             URL = ImageURL imageSpec, FetchedImage.Privileged = False\<rparr>)
   \<and> (ImageArtifact imageSpec = None \<and> ImageSpec.ResourceType imageSpec \<noteq> []
        \<and> (\<forall>t \<in> set (Worker.ResourceTypes worker).
              WorkerResourceType.Type t \<noteq> ImageSpec.ResourceType imageSpec) \<longrightarrow>
      fetchImageForContainer lib worker imageSpec teamID container
      = Inl ErrUnsupportedResourceType)"
proof -
  have "find (\<lambda>t. WorkerResourceType.Type t = ImageSpec.ResourceType imageSpec)
          (Worker.ResourceTypes worker) = None"
    if "\<forall>t \<in> set (Worker.ResourceTypes worker).
          WorkerResourceType.Type t \<noteq> ImageSpec.ResourceType imageSpec"
    using that by (simp add: find_None_iff)
  then show ?thesis
    by (auto simp: fetchImageForContainer_def FetchedImage_zero_def ImageMetadata_zero_def)
qed

theorem fetchImage_url_verbatim_witness:
  "fetchImageForContainer plainLib w1
     \<lparr>ImageSpec.ImageArtifact = None, ResourceType = [], ImageURL = ''docker:///busybox'',
      ImageSpec.Privileged = True\<rparr> 1 ''c''
   = Inr \<lparr>FetchedImage.Metadata = \<lparr>ImageMetadata.Env = [], User = []\<rparr>, Version = Map.empty,
          URL = ''docker:///busybox'', FetchedImage.Privileged = False\<rparr>
   \<and> fetchImageForContainer plainLib w1
     \<lparr>ImageSpec.ImageArtifact = None, ResourceType = ''s3'', ImageURL = [],
      ImageSpec.Privileged = False\<rparr> 1 ''c''
   = Inl ErrUnsupportedResourceType"
proof -
  have "\<forall>t \<in> set (Worker.ResourceTypes w1). WorkerResourceType.Type t \<noteq> ''s3''"
    by (simp add: w1_def)
  then show ?thesis
    using fetchImage_url_verbatim[of
        "\<lparr>ImageSpec.ImageArtifact = None, ResourceType = [], ImageURL = ''docker:///busybox'',
          ImageSpec.Privileged = True\<rparr>" plainLib w1 1 "''c''"]
      fetchImage_url_verbatim[of
        "\<lparr>ImageSpec.ImageArtifact = None, ResourceType = ''s3'', ImageURL = [],
          ImageSpec.Privileged = False\<rparr>" plainLib w1 1 "''c''"]
    by simp
qed

text \<open>
  C3, as stated, fails on the code.  With no variant set (no image artifact, empty
  resource type, empty URL) the fetcher returns the image of the empty URL and no
  error, not \<open>ErrUnsupportedResourceType\<close>.
\<close>

theorem fetchImage_no_variant_counterexample:
  "fetchImageForContainer plainLib w1
     \<lparr>ImageSpec.ImageArtifact = None, ResourceType = [], ImageURL = [],
      ImageSpec.Privileged = False\<rparr> 1 ''c''
   = Inr \<lparr>FetchedImage.Metadata = \<lparr>ImageMetadata.Env = [], User = []\<rparr>, Version = Map.empty, URL = [],
          FetchedImage.Privileged = False\<rparr>
   \<and> fetchImageForContainer plainLib w1
     \<lparr>ImageSpec.ImageArtifact = None, ResourceType = [], ImageURL = [],
      ImageSpec.Privileged = False\<rparr> 1 ''c''
   \<noteq> Inl ErrUnsupportedResourceType"
  by (simp add: fetchImageForContainer_def FetchedImage_zero_def ImageMetadata_zero_def)

text \<open>
  The image-artifact path on the same worker, for comparison: the path of the URL is
  \<^verbatim>\<open>path.Join\<close> of the volume's path and \<^verbatim>\<open>rootfs\<close>, and the privileged flag
  is the one of the image spec.
\<close>

lemma same_worker_image_url:
  assumes "imageProvidedByPreviousStepOnSameWorker lib worker privileged teamID container volume
      = Inr fetched"
  shows "\<exists>imageVolume.
      findOrCreateCOWVolumeForContainer worker privileged container volume teamID ''/''
        = Inr imageVolume
      \<and> URL fetched = URL_String lib ''raw'' (path_Join lib (Volume.Path imageVolume) ''rootfs'')
      \<and> FetchedImage.Privileged fetched = privileged"
  using assms
  by (auto simp: imageProvidedByPreviousStepOnSameWorker_def RawRootFSScheme_def
      split: sum.splits)



section \<open>Properties of the get step\<close>

text \<open>Every run that returns no error has called the worker client and got a result.\<close>

lemma GetStep_run_nil_error:
  assumes "snd (snd (GetStep_run w step)) = None"
  shows "\<exists>request getResult. getRequest w step = Inr request
           \<and> RunGetStep w request = Inr getResult"
  using assms by (auto simp: GetStep_run_def split: sum.splits)

text \<open>
  C7.  Take the run of a new get step whose evaluations succeed and whose process
  is run, with result \<open>getResult\<close>.  The run returns the nil error, whatever the exit
  status.  It registers an artifact exactly when the exit status is 0, and then the
  artifact of the result under the name of the plan, and nothing else.  It calls
  \<^verbatim>\<open>UpdateVersion\<close> exactly when the exit status is 0 and the plan names a
  resource.  \<^verbatim>\<open>Succeeded\<close> is true afterwards exactly when the exit status
  is 0.  It reports the exit status to the delegate last.
\<close>

theorem get_step_completed:
  assumes "step = NewGetStep pid p m cm"
    and "getRequest w step = Inr request"
    and "RunGetStep w request = Inr getResult"
    and "GetStep_run w step = (calls, step', err)"
  shows "err = None
       \<and> (RegisterArtifact (GetPlan.Name p) (GetArtifact getResult) \<in> set calls
            \<longleftrightarrow> ExitStatus getResult = 0)
       \<and> (\<forall>name artifact. RegisterArtifact name artifact \<in> set calls \<longrightarrow>
            name = GetPlan.Name p \<and> artifact = GetArtifact getResult)
       \<and> ((\<exists>versionResult. UpdateVersion p versionResult \<in> set calls)
            \<longleftrightarrow> ExitStatus getResult = 0 \<and> GetPlan.Resource p \<noteq> [])
       \<and> (GetStep_Succeeded step' \<longleftrightarrow> ExitStatus getResult = 0)
       \<and> last calls = Finished (ExitStatus getResult) (VersionResult getResult)"
  using assms
  by (auto simp: GetStep_run_def NewGetStep_def GetStep_Succeeded_def split: if_splits)

lemma getRequest_exitingWorld:
  "\<exists>request. getRequest (exitingWorld status) (NewGetStep ''p1'' getPlanR metadata1 containerMetadata1)
     = Inr request"
  by (simp add: getRequest_def exitingWorld_def)

theorem get_step_completed_witness:
  "GetStep_run (exitingWorld 0) (NewGetStep ''p1'' getPlanR metadata1 containerMetadata1)
   = ([Initializing, RegisterArtifact ''r'' (NamedArtifact ''volume-1''),
       UpdateVersion getPlanR \<lparr>VersionResult.Version = [''ref'' \<mapsto> ''abc''], Metadata = []\<rparr>,
       Finished 0 \<lparr>VersionResult.Version = [''ref'' \<mapsto> ''abc''], Metadata = []\<rparr>],
      (NewGetStep ''p1'' getPlanR metadata1 containerMetadata1)\<lparr>succeeded := True\<rparr>, None)
   \<and> snd (snd (GetStep_run (exitingWorld 2)
        (NewGetStep ''p1'' getPlanR metadata1 containerMetadata1))) = None
   \<and> \<not> GetStep_Succeeded (fst (snd (GetStep_run (exitingWorld 2)
        (NewGetStep ''p1'' getPlanR metadata1 containerMetadata1))))"
proof -
  let ?step = "NewGetStep ''p1'' getPlanR metadata1 containerMetadata1"
  let ?result = "\<lambda>status. \<lparr>GetResult.ExitStatus = status,
      VersionResult = \<lparr>VersionResult.Version = [''ref'' \<mapsto> ''abc''], Metadata = []\<rparr>,
      GetArtifact = NamedArtifact ''volume-1''\<rparr>"
  obtain request where request: "getRequest (exitingWorld 2) ?step = Inr request"
    using getRequest_exitingWorld by blast
  have result: "RunGetStep (exitingWorld 2) request = Inr (?result 2)"
    by (simp add: exitingWorld_def)
  obtain calls step' err where run: "GetStep_run (exitingWorld 2) ?step = (calls, step', err)"
    by (cases "GetStep_run (exitingWorld 2) ?step") auto
  from get_step_completed[OF refl request result run]
  have "err = None" and "\<not> GetStep_Succeeded step'"
    by simp_all
  with run have failed: "snd (snd (GetStep_run (exitingWorld 2) ?step)) = None"
    "\<not> GetStep_Succeeded (fst (snd (GetStep_run (exitingWorld 2) ?step)))"
    by simp_all
  have "GetStep_run (exitingWorld 0) ?step
      = ([Initializing, RegisterArtifact ''r'' (NamedArtifact ''volume-1''),
          UpdateVersion getPlanR \<lparr>VersionResult.Version = [''ref'' \<mapsto> ''abc''], Metadata = []\<rparr>,
          Finished 0 \<lparr>VersionResult.Version = [''ref'' \<mapsto> ''abc''], Metadata = []\<rparr>],
         ?step\<lparr>succeeded := True\<rparr>, None)"
    by (simp add: GetStep_run_def getRequest_def exitingWorld_def NewGetStep_def getPlanR_def)
  with failed show ?thesis by simp
qed


section \<open>Properties of the step builder\<close>

text \<open>
  C2, as the code has it.  For a plan in which none of the variants that
  \<^verbatim>\<open>buildStep\<close> tests is set, \<^verbatim>\<open>buildStep\<close> returns the identity step, and
  \<^verbatim>\<open>BuildStep\<close> of a build of the supported schema with that plan returns the
  identity step and the nil error.  The only errors of \<^verbatim>\<open>BuildStep\<close>, for any
  build, are ``must provide a build'' and ``schema not supported''.
\<close>

theorem no_variant_identity_step:
  "(noVariant pln \<longrightarrow> buildStep builder bld pln = Some IdentityStep)
   \<and> (noVariant (PrivatePlan bld) \<and> Schema bld = supportedSchema \<longrightarrow>
        BuildStep builder (Some bld) = Some (IdentityStep, None))
   \<and> (\<forall>step err. BuildStep builder maybeBuild = Some (step, Some err) \<longrightarrow>
        err = Err ''must provide a build'' \<or> err = Err ''schema not supported'')"
proof -
  have identity: "buildStep builder bld p = Some IdentityStep" if "noVariant p" for p
    using that by (simp add: noVariant_def buildStep.simps[of builder bld p])
  have "BuildStep builder (Some bld) = Some (IdentityStep, None)"
    if "noVariant (PrivatePlan bld)" and "Schema bld = supportedSchema"
    using identity[OF that(1)] that(2) by (simp add: BuildStep_def)
  moreover have "err = Err ''must provide a build'' \<or> err = Err ''schema not supported''"
    if "BuildStep builder maybeBuild = Some (step, Some err)" for step err
    using that by (auto simp: BuildStep_def split: option.splits if_splits)
  ultimately show ?thesis using identity by blast
qed

theorem no_variant_identity_step_witness:
  "buildStep builder1 (build1 (emptyPlan ''1'')) (emptyPlan ''1'') = Some IdentityStep
   \<and> BuildStep builder1 (Some (build1 (emptyPlan ''1''))) = Some (IdentityStep, None)"
proof -
  have "noVariant (emptyPlan ''1'')"
    by (simp add: noVariant_def emptyPlan_def)
  moreover have "PrivatePlan (build1 (emptyPlan ''1'')) = emptyPlan ''1''"
    "Schema (build1 (emptyPlan ''1'')) = supportedSchema"
    by (simp_all add: build1_def supportedSchema_def)
  ultimately show ?thesis
    using no_variant_identity_step[of "emptyPlan ''1''" builder1 "build1 (emptyPlan ''1'')"]
    by simp
qed

text \<open>
  C2, as stated, fails on the code.  The plan \<open>emptyPlan\<close> has no variant set, and the
  build has the supported schema; \<^verbatim>\<open>BuildStep\<close> returns a step and the nil
  error, not an error.
\<close>

theorem malformed_plan_counterexample:
  "noVariant (emptyPlan ''1'') \<and> Check (emptyPlan ''1'') = None
   \<and> BuildStep builder1 (Some (build1 (emptyPlan ''1''))) = Some (IdentityStep, None)"
  by (simp add: noVariant_def emptyPlan_def BuildStep_def build1_def supportedSchema_def
      buildStep.simps)

text \<open>The loop of \<^verbatim>\<open>buildDoStep\<close> builds the right-nested chain.\<close>

lemma do_loop_right_nested:
  "foldl (\<lambda>step innerPlan.
            do {
              next \<leftarrow> step;
              previous \<leftarrow> f innerPlan;
              Some (OnSuccessStep previous next)
            })
     (Some IdentityStep) (rev ps)
   = map_option (\<lambda>steps. foldr OnSuccessStep steps IdentityStep) (those (map f ps))"
proof -
  let ?wrap = "\<lambda>innerPlan step.
      do {
        next \<leftarrow> step;
        previous \<leftarrow> f innerPlan;
        Some (OnSuccessStep previous next)
      }"
  have "foldr ?wrap ps (Some IdentityStep)
      = map_option (\<lambda>steps. foldr OnSuccessStep steps IdentityStep) (those (map f ps))"
  proof (induction ps)
    case Nil
    show ?case by simp
  next
    case (Cons p ps)
    then show ?case
      by (cases "f p"; cases "those (map f ps)") simp_all
  qed
  then show ?thesis
    by (simp add: foldl_conv_foldr)
qed

lemma runDo_Cons:
  "runDo child (c # cs) s =
     (case child c s of
        (Success, s') \<Rightarrow> runDo child cs s'
      | (Failure, s') \<Rightarrow> (Failure, s')
      | (Errored err, s') \<Rightarrow> (Errored err, s'))"
  by (cases cs) (auto split: prod.splits status.splits)

lemma run_right_nested:
  "runStep run (foldr OnSuccessStep steps IdentityStep) s = runDo (runStep run) steps s"
  by (induction steps arbitrary: s)
    (auto simp: runDo_Cons simp del: runDo.simps(3) split: prod.splits status.splits)

text \<open>
  C9.  For a plan whose \<open>Do\<close> is set to \<open>[s1, \<dots>, sn]\<close> (and no variant tested
  before it), \<^verbatim>\<open>buildStep\<close> compiles every \<open>si\<close>, with the attempts of the plan,
  to a step \<open>si'\<close>, and returns \<open>OnSuccess(s1', OnSuccess(s2', \<dots> OnSuccess(sn',
  Identity)))\<close> (it panics if compiling a child panics).  Run by the rule of
  \<open>OnSuccess\<close>, such a chain does what the spec says of \<open>Do\<close>: the children run in
  order, each from the state the one before left; the first that does not succeed
  ends the run with its own status, failed or errored, and the rest are skipped; if
  all succeed the status is that of the last.
\<close>

theorem do_step_compiles_to_on_success:
  assumes "Aggregate pln = None" and "InParallel pln = None" and "Across pln = None"
    and "Do pln = Some ps"
  shows "buildStep builder bld pln
         = map_option (\<lambda>steps. foldr OnSuccessStep steps IdentityStep)
             (those (map (\<lambda>innerPlan. buildStep builder bld (setAttempts (Attempts pln) innerPlan))
                       ps))
       \<and> (\<forall>steps s. runStep run (foldr OnSuccessStep steps IdentityStep) s
                     = runDo (runStep run) steps s)"
  using assms
    do_loop_right_nested[of
      "\<lambda>innerPlan. buildStep builder bld (setAttempts (Attempts pln) innerPlan)" ps]
  by (simp add: buildStep.simps[of builder bld pln] run_right_nested)

lemma stepMetadata_build1: "stepMetadata (build1 p) (externalURL builder1) = metadataCI"
  by (simp add: stepMetadata_def metadataCI_def metadata1_def builder1_def build1_def)

lemma buildStep_getLeaf:
  "buildStep builder1 (build1 p) (setAttempts attempts (getLeaf i getPlanR))
   = Some (Factory_GetStep (setAttempts attempts (getLeaf i getPlanR)) metadataCI
             (getMetadata (Join (map Itoa attempts) ''.'')))"
  by (simp add: buildStep.simps getLeaf_def stepMetadata_def containerMetadata_def
      metadataCI_def metadata1_def getMetadata_def containerMetadata1_def builder1_def
      build1_def getPlanR_def ContainerTypeGet_def)

theorem do_step_compiles_to_on_success_witness:
  "buildStep builder1 (build1 doThree) doThree
   = Some (OnSuccessStep (Factory_GetStep (getLeaf ''2'' getPlanR) metadataCI (getMetadata []))
       (OnSuccessStep (Factory_GetStep (getLeaf ''3'' getPlanR) metadataCI (getMetadata []))
         (OnSuccessStep (Factory_GetStep (getLeaf ''4'' getPlanR) metadataCI (getMetadata []))
           IdentityStep)))
   \<and> runStep (runLeaf ''3'')
       (OnSuccessStep (Factory_GetStep (getLeaf ''2'' getPlanR) metadataCI (getMetadata []))
         (OnSuccessStep (Factory_GetStep (getLeaf ''3'' getPlanR) metadataCI (getMetadata []))
           (OnSuccessStep (Factory_GetStep (getLeaf ''4'' getPlanR) metadataCI (getMetadata []))
             IdentityStep))) []
     = (Failure, [''2'', ''3''])"
proof -
  have variants: "Aggregate doThree = None" "InParallel doThree = None" "Across doThree = None"
    "Do doThree
      = Some [getLeaf ''2'' getPlanR, getLeaf ''3'' getPlanR, getLeaf ''4'' getPlanR]"
    and attempts: "Attempts doThree = []"
    by (simp_all add: doThree_def doPlan_def)
  have same: "setAttempts [] (getLeaf i getPlanR) = getLeaf i getPlanR" for i
    by (simp add: getLeaf_def)
  note chain = do_step_compiles_to_on_success[OF variants,
      where builder = builder1 and bld = "build1 doThree" and run = "runLeaf ''3''"]
  have compiled: "buildStep builder1 (build1 doThree) doThree
      = Some (OnSuccessStep (Factory_GetStep (getLeaf ''2'' getPlanR) metadataCI (getMetadata []))
          (OnSuccessStep (Factory_GetStep (getLeaf ''3'' getPlanR) metadataCI (getMetadata []))
            (OnSuccessStep (Factory_GetStep (getLeaf ''4'' getPlanR) metadataCI (getMetadata []))
              IdentityStep)))"
    using chain buildStep_getLeaf[of doThree "[]"] by (simp add: attempts same)
  have "runStep (runLeaf ''3'')
       (foldr OnSuccessStep
          [Factory_GetStep (getLeaf ''2'' getPlanR) metadataCI (getMetadata []),
           Factory_GetStep (getLeaf ''3'' getPlanR) metadataCI (getMetadata []),
           Factory_GetStep (getLeaf ''4'' getPlanR) metadataCI (getMetadata [])]
          IdentityStep) []
     = (Failure, [''2'', ''3''])"
    using chain by (simp add: getLeaf_def)
  with compiled show ?thesis by simp
qed

text \<open>
  The attempts of a retry, in general: when the \<open>Retry\<close> variant is the one that
  \<^verbatim>\<open>buildStep\<close> takes, the child of index \<open>i\<close> (from 0) is compiled from the
  inner plan \<open>i\<close> with the attempts of the plan followed by \<open>i + 1\<close>.
\<close>

lemma those_map_Some: "those xs = Some ys \<longleftrightarrow> xs = map Some ys"
  by (induction xs arbitrary: ys) (auto split: option.splits)

lemma retry_appends_attempt:
  assumes "Aggregate pln = None" "InParallel pln = None" "Across pln = None" "Do pln = None"
    "Timeout pln = None" "Try pln = None" "OnAbort pln = None" "OnError pln = None"
    "OnSuccess pln = None" "OnFailure pln = None" "Ensure pln = None" "Task pln = None"
    "SetPipeline pln = None" "LoadVar pln = None" "Get pln = None" "Put pln = None"
    and "Retry pln = Some ps"
    and "buildStep builder bld pln = Some compiled"
  shows "\<exists>steps. compiled = RetryStep steps \<and> length steps = length ps
           \<and> (\<forall>i < length ps.
                 buildStep builder bld (setAttempts (Attempts pln @ [int i + 1]) (ps ! i))
                 = Some (steps ! i))"
proof -
  let ?f = "\<lambda>(index, innerPlan).
      buildStep builder bld (setAttempts (Attempts pln @ [int index + 1]) innerPlan)"
  from assms obtain steps where
    steps: "those (map ?f (enumerate 0 ps)) = Some steps" and "compiled = RetryStep steps"
    by (auto simp: buildStep.simps[of builder bld pln])
  from steps have eq: "map ?f (enumerate 0 ps) = map Some steps"
    by (simp add: those_map_Some)
  then have len: "length steps = length ps"
    by (metis length_enumerate length_map)
  have "?f (enumerate 0 ps ! i) = Some (steps ! i)" if "i < length ps" for i
    using eq that len by (metis length_enumerate nth_map)
  then have "\<forall>i < length ps.
      buildStep builder bld (setAttempts (Attempts pln @ [int i + 1]) (ps ! i)) = Some (steps ! i)"
    by (simp add: nth_enumerate_eq)
  with \<open>compiled = RetryStep steps\<close> len show ?thesis by blast
qed

text \<open>
  The combinators that hand the attempts of the plan down: each compiles its inner
  plans with the attempts of the plan itself (the do step is above).
\<close>

lemma combinators_hand_down_attempts:
  "Aggregate pln = Some ps \<Longrightarrow>
     buildStep builder bld pln
     = map_option AggregateStep
         (those (map (\<lambda>innerPlan. buildStep builder bld (setAttempts (Attempts pln) innerPlan))
                   ps))"
  "Aggregate pln = None \<Longrightarrow> InParallel pln = Some inParallel \<Longrightarrow>
     buildStep builder bld pln
     = map_option (\<lambda>steps. InParallelStep steps (Limit inParallel)
                             (InParallelPlan.FailFast inParallel))
         (those (map (\<lambda>innerPlan. buildStep builder bld (setAttempts (Attempts pln) innerPlan))
                   (InParallelPlan.Steps inParallel)))"
  "Aggregate pln = None \<Longrightarrow> InParallel pln = None \<Longrightarrow> Across pln = None \<Longrightarrow> Do pln = None
     \<Longrightarrow> Timeout pln = Some timeout \<Longrightarrow>
     buildStep builder bld pln
     = do {
         step \<leftarrow> buildStep builder bld (setAttempts (Attempts pln) (TimeoutPlan.Step timeout));
         Some (TimeoutStep step (Duration timeout))
       }"
  "Aggregate pln = None \<Longrightarrow> InParallel pln = None \<Longrightarrow> Across pln = None \<Longrightarrow> Do pln = None
     \<Longrightarrow> Timeout pln = None \<Longrightarrow> Try pln = Some tryPlan \<Longrightarrow>
     buildStep builder bld pln
     = do {
         step \<leftarrow> buildStep builder bld (setAttempts (Attempts pln) (TryPlan.Step tryPlan));
         Some (TryStep step)
       }"
  "Aggregate pln = None \<Longrightarrow> InParallel pln = None \<Longrightarrow> Across pln = None \<Longrightarrow> Do pln = None
     \<Longrightarrow> Timeout pln = None \<Longrightarrow> Try pln = None \<Longrightarrow> OnAbort pln = None \<Longrightarrow> OnError pln = None
     \<Longrightarrow> OnSuccess pln = Some hook \<Longrightarrow>
     buildStep builder bld pln
     = do {
         step \<leftarrow> buildStep builder bld (setAttempts (Attempts pln) (HookPlan.Step hook));
         next \<leftarrow> buildStep builder bld (setAttempts (Attempts pln) (Next hook));
         Some (OnSuccessStep step next)
       }"
  by (simp_all add: buildStep.simps[of builder bld pln])


end
